theory Spec2Isabelle
  imports Main "HOL-Library.Word"
begin

unbundle bit_operations_syntax

type_synonym byte = "8 word"

section \<open>Credentials (routine.go)\<close>

text \<open>
  Go strings are byte sequences. A \<^typ>\<open>string\<close> of HOL is a list of 8-bit characters;
  \<open>bytes_of\<close> is the conversion \<^verbatim>\<open>[]byte(s)\<close>.
\<close>

definition bytes_of :: "string \<Rightarrow> byte list" where
  "bytes_of s = map (\<lambda>c. word_of_nat (of_char c)) s"

text \<open>
  \<^verbatim>\<open>crypto/subtle\<close> of the Go standard library, as \<^verbatim>\<open>CredentialValidator.Valid\<close> calls it:
  \<^verbatim>\<open>ConstantTimeByteEq(x, y) = int((uint32(x^y) - 1) >> 31)\<close>, and
  \<^verbatim>\<open>ConstantTimeCompare\<close> returns 0 on slices of different lengths, otherwise ORs the
  XOR of every byte pair into \<^verbatim>\<open>v\<close> and returns \<^verbatim>\<open>ConstantTimeByteEq(v, 0)\<close>.
\<close>

definition ConstantTimeByteEq :: "byte \<Rightarrow> byte \<Rightarrow> int" where
  "ConstantTimeByteEq x y = uint (drop_bit 31 ((ucast (x XOR y) :: 32 word) - 1))"

fun ct_loop :: "byte \<Rightarrow> byte list \<Rightarrow> byte list \<Rightarrow> byte" where
  "ct_loop v (a # as) (b # bs) = ct_loop (v OR (a XOR b)) as bs"
| "ct_loop v _ _ = v"

definition ConstantTimeCompare :: "byte list \<Rightarrow> byte list \<Rightarrow> int" where
  "ConstantTimeCompare x y =
     (if length x \<noteq> length y then 0 else ConstantTimeByteEq (ct_loop 0 x y) 0)"

record CredentialValidator =
  username :: string
  password :: string

text \<open>\<^verbatim>\<open>func (c CredentialValidator) Valid(username, password string) bool\<close>\<close>

definition Valid :: "CredentialValidator \<Rightarrow> string \<Rightarrow> string \<Rightarrow> bool" where
  "Valid c uname pass =
     (let u = ConstantTimeCompare (bytes_of (username c)) (bytes_of uname);
          p = ConstantTimeCompare (bytes_of (password c)) (bytes_of pass)
      in u AND p = 1)"

section \<open>Go strings (package \<^verbatim>\<open>strings\<close>)\<close>

text \<open>
  The functions of the Go standard library the repository calls, on byte strings.
  Separators are always one-character strings in the source (\<^verbatim>\<open>"\n"\<close>, \<^verbatim>\<open>","\<close>,
  \<^verbatim>\<open>"="\<close>), so \<open>Split\<close> and \<open>SplitN2\<close> take the separator as a character.
  \<open>ToLower\<close> covers ASCII; Go also maps the upper-case letters beyond ASCII, which no
  key name of the source contains. An ASCII upper-case letter (65 to 90) becomes
  lower-case by setting bit 5, that is by adding 32.
\<close>

definition HasPrefix :: "string \<Rightarrow> string \<Rightarrow> bool" where
  "HasPrefix s prefix = (take (length prefix) s = prefix)"

definition TrimPrefix :: "string \<Rightarrow> string \<Rightarrow> string" where
  "TrimPrefix s prefix = (if HasPrefix s prefix then drop (length prefix) s else s)"

fun Index :: "string \<Rightarrow> string \<Rightarrow> nat option" where
  "Index [] substr = (if substr = [] then Some 0 else None)"
| "Index (c # cs) substr =
     (if HasPrefix (c # cs) substr then Some 0 else map_option Suc (Index cs substr))"

definition Contains :: "string \<Rightarrow> string \<Rightarrow> bool" where
  "Contains s substr = (Index s substr \<noteq> None)"

text \<open>\<^verbatim>\<open>strings.Replace(s, old, new, 1)\<close>: only the first occurrence is replaced.\<close>

definition Replace1 :: "string \<Rightarrow> string \<Rightarrow> string \<Rightarrow> string" where
  "Replace1 s old new =
     (case Index s old of
        None \<Rightarrow> s
      | Some i \<Rightarrow> take i s @ new @ drop (i + length old) s)"

fun Split :: "string \<Rightarrow> char \<Rightarrow> string list" where
  "Split [] sep = [[]]"
| "Split (c # cs) sep =
     (if c = sep then [] # Split cs sep
      else (case Split cs sep of [] \<Rightarrow> [[c]] | w # ws \<Rightarrow> (c # w) # ws))"

text \<open>\<^verbatim>\<open>strings.SplitN(s, sep, 2)\<close>: at most two pieces, cut at the first separator.\<close>

definition SplitN2 :: "string \<Rightarrow> char \<Rightarrow> string list" where
  "SplitN2 s sep =
     (case dropWhile (\<lambda>c. c \<noteq> sep) s of
        [] \<Rightarrow> [s]
      | _ # rest \<Rightarrow> [takeWhile (\<lambda>c. c \<noteq> sep) s, rest])"

text \<open>
  \<^verbatim>\<open>strings.TrimSpace\<close> removes the white space at both ends of a text in UTF-8, white
  space being what \<^verbatim>\<open>unicode.IsSpace\<close> accepts: the six ASCII characters, U+0085, U+00A0,
  U+1680, U+2000 to U+200A, U+2028, U+2029, U+202F, U+205F and U+3000. \<open>space_runes\<close>
  holds their encodings. A code point is white space at the start of a text when the
  text begins with its encoding, and at the end when the text ends with it; bytes that
  are no valid encoding decode to U+FFFD, which is not white space.
\<close>

definition space_runes :: "string list" where
  "space_runes =
     [[CHR 0x09], [CHR 0x0A], [CHR 0x0B], [CHR 0x0C], [CHR 0x0D], [CHR 0x20],
      [CHR 0xC2, CHR 0x85], [CHR 0xC2, CHR 0xA0], [CHR 0xE1, CHR 0x9A, CHR 0x80],
      [CHR 0xE2, CHR 0x80, CHR 0x80], [CHR 0xE2, CHR 0x80, CHR 0x81],
      [CHR 0xE2, CHR 0x80, CHR 0x82], [CHR 0xE2, CHR 0x80, CHR 0x83],
      [CHR 0xE2, CHR 0x80, CHR 0x84], [CHR 0xE2, CHR 0x80, CHR 0x85],
      [CHR 0xE2, CHR 0x80, CHR 0x86], [CHR 0xE2, CHR 0x80, CHR 0x87],
      [CHR 0xE2, CHR 0x80, CHR 0x88], [CHR 0xE2, CHR 0x80, CHR 0x89],
      [CHR 0xE2, CHR 0x80, CHR 0x8A], [CHR 0xE2, CHR 0x80, CHR 0xA8],
      [CHR 0xE2, CHR 0x80, CHR 0xA9], [CHR 0xE2, CHR 0x80, CHR 0xAF],
      [CHR 0xE2, CHR 0x81, CHR 0x9F], [CHR 0xE3, CHR 0x80, CHR 0x80]]"

fun trim_left :: "string list \<Rightarrow> string \<Rightarrow> string" where
  "trim_left runes [] = []"
| "trim_left runes (c # s) =
     (case List.find (HasPrefix (c # s)) runes of
        None \<Rightarrow> c # s
      | Some r \<Rightarrow> trim_left runes (drop (length r - 1) s))"

definition TrimSpace :: "string \<Rightarrow> string" where
  "TrimSpace s = rev (trim_left (map rev space_runes) (rev (trim_left space_runes s)))"

definition lower_char :: "char \<Rightarrow> char" where
  "lower_char c =
     (if 65 \<le> (of_char c :: nat) \<and> (of_char c :: nat) \<le> 90
      then Char (digit0 c) (digit1 c) (digit2 c) (digit3 c) (digit4 c) True (digit6 c) (digit7 c)
      else c)"

definition ToLower :: "string \<Rightarrow> string" where
  "ToLower s = map lower_char s"

text \<open>The verb \<^verbatim>\<open>%d\<close> of \<^verbatim>\<open>fmt.Sprintf\<close>: decimal digits, with a minus sign.\<close>

definition digit_char :: "nat \<Rightarrow> char" where
  "digit_char d =
     (if d = 0 then CHR ''0'' else if d = 1 then CHR ''1'' else if d = 2 then CHR ''2''
      else if d = 3 then CHR ''3'' else if d = 4 then CHR ''4'' else if d = 5 then CHR ''5''
      else if d = 6 then CHR ''6'' else if d = 7 then CHR ''7'' else if d = 8 then CHR ''8''
      else CHR ''9'')"

fun show_nat :: "nat \<Rightarrow> string" where
  "show_nat n =
     (if n < 10 then [digit_char n] else show_nat (n div 10) @ [digit_char (n mod 10)])"

declare show_nat.simps [simp del]

definition show_int :: "int \<Rightarrow> string" where
  "show_int i = (if i < 0 then CHR ''-'' # show_nat (nat (- i)) else show_nat (nat i))"

text \<open>\<^verbatim>\<open>hex.EncodeToString\<close>: two lower-case hexadecimal digits for every byte.\<close>

definition hex_char :: "nat \<Rightarrow> char" where
  "hex_char d =
     (if d < 10 then digit_char d else if d = 10 then CHR ''a'' else if d = 11 then CHR ''b''
      else if d = 12 then CHR ''c'' else if d = 13 then CHR ''d'' else if d = 14 then CHR ''e''
      else CHR ''f'')"

definition EncodeToString :: "byte list \<Rightarrow> string" where
  "EncodeToString bs = concat (map (\<lambda>b. [hex_char (unat b div 16), hex_char (unat b mod 16)]) bs)"

section \<open>Errors\<close>

text \<open>
  A Go \<^verbatim>\<open>error\<close> is a value with a message. \<open>New\<close> is an error this package creates
  (\<^verbatim>\<open>errors.New\<close>, \<^verbatim>\<open>fmt.Errorf\<close>); \<open>LibError\<close> is an error a library call returned.
  \<open>Error\<close> is the method \<^verbatim>\<open>err.Error()\<close>. A fallible function returns
  \<open>error + 'a\<close>, with \<open>Inl\<close> for the error.
\<close>

datatype error = New string | LibError string

fun Error :: "error \<Rightarrow> string" where
  "Error (New msg) = msg"
| "Error (LibError msg) = msg"

definition bindE :: "error + 'a \<Rightarrow> ('a \<Rightarrow> error + 'b) \<Rightarrow> error + 'b" where
  "bindE r f = (case r of Inl e \<Rightarrow> Inl e | Inr x \<Rightarrow> f x)"

section \<open>The INI document (library \<^verbatim>\<open>go-ini\<close>)\<close>

text \<open>
  The tokenizer is outside the repository; \<^verbatim>\<open>Parse\<close> receives a loaded \<^verbatim>\<open>*ini.File\<close>.
  A section is the list of its keys in document order, each with the text
  \<^verbatim>\<open>Key.String()\<close> returns for it; the file is its section-less root scope and the
  list of its named sections, duplicates allowed. The file
  is loaded with \<^verbatim>\<open>Insensitive\<close>, so stored names are lower-case and every lookup
  lower-cases the name it is given. With \<^verbatim>\<open>AllowShadows\<close> the value of a repeated key
  is its first value.

  \<^verbatim>\<open>GetKey\<close> fails on a missing key (\<open>None\<close>). \<^verbatim>\<open>Key\<close> never returns nil: for a
  missing key the library creates the key with the empty value. \<^verbatim>\<open>SectionsByName\<close>
  fails (\<open>None\<close>) when no section has the name.
\<close>

type_synonym Section = "(string \<times> string) list"

record File =
  root :: Section
  sections :: "(string \<times> Section) list"

definition GetKey :: "Section \<Rightarrow> string \<Rightarrow> string option" where
  "GetKey section name = map_of section (ToLower name)"

definition Key :: "Section \<Rightarrow> string \<Rightarrow> string option" where
  "Key section name = (case GetKey section name of None \<Rightarrow> Some [] | Some v \<Rightarrow> Some v)"

definition SectionsByName :: "File \<Rightarrow> string \<Rightarrow> Section list option" where
  "SectionsByName cfg name =
     (let secs = map snd (filter (\<lambda>(n, s). n = ToLower name) (sections cfg))
      in if secs = [] then None else Some secs)"

section \<open>Library calls taken as parameters\<close>

text \<open>
  The remaining calls leave the repository: the process environment, number parsing of
  the INI library (\<^verbatim>\<open>Key.Int\<close>, \<^verbatim>\<open>Key.Uint64\<close>, \<^verbatim>\<open>Key.Bool\<close>), Base64 decoding,
  \<^verbatim>\<open>net/netip\<close> parsing, host resolution and loading a second INI source. They are
  fields of \<open>Lib\<close>, failing with a message (\<open>Inl\<close>); every theorem holds for any such
  library.

  A \<^verbatim>\<open>netip.Addr\<close> is kept by its textual form (\<^verbatim>\<open>String()\<close>), a \<^verbatim>\<open>netip.Prefix\<close>
  by its address and its number of bits; \<^verbatim>\<open>Prefix.String()\<close> is the address, a slash
  and the bits.
\<close>

datatype Addr = Addr string

fun Addr_String :: "Addr \<Rightarrow> string" where
  "Addr_String (Addr s) = s"

datatype Prefix = Prefix Addr nat

fun Prefix_Addr :: "Prefix \<Rightarrow> Addr" where
  "Prefix_Addr (Prefix a bits) = a"

fun Prefix_String :: "Prefix \<Rightarrow> string" where
  "Prefix_String (Prefix a bits) = Addr_String a @ ''/'' @ show_nat bits"

record Lib =
  LookupEnv :: "string \<Rightarrow> string option"
  key_Int :: "string \<Rightarrow> string + int"
  key_Uint64 :: "string \<Rightarrow> string + 64 word"
  key_Bool :: "string \<Rightarrow> string + bool"
  DecodeString :: "string \<Rightarrow> string + byte list"
  ParseAddr :: "string \<Rightarrow> string + Addr"
  ParsePrefix :: "string \<Rightarrow> string + Prefix"
  SplitHostPort :: "string \<Rightarrow> string + string \<times> string"
  ResolveIPAddr :: "string \<Rightarrow> string + string"
  JoinHostPort :: "string \<Rightarrow> string \<Rightarrow> string"
  LoadSources :: "string \<Rightarrow> string + File"

text \<open>A failing library call gives its message; the error value it becomes is a \<open>LibError\<close>.\<close>

definition lib_call :: "string + 'a \<Rightarrow> error + 'a" where
  "lib_call r = (case r of Inl msg \<Rightarrow> Inl (LibError msg) | Inr x \<Rightarrow> Inr x)"

section \<open>Configuration data model\<close>

text \<open>
  The structs of the configuration module. A Go \<^verbatim>\<open>int\<close> is an \<^typ>\<open>int\<close>: the parser
  only compares the integers it reads and adds the constants 148 and 92 to sizes it has
  bounded by 1280, so no operation on them wraps around. A \<^verbatim>\<open>uint32\<close> is a
  \<^typ>\<open>32 word\<close>, a nil pointer is \<open>None\<close>.
\<close>

record PeerConfig =
  PublicKey :: string
  PreSharedKey :: string
  Endpoint :: "string option"
  KeepAlive :: int
  AllowedIPs :: "Prefix list"

record ASecConfigType =
  junkPacketCount :: int
  junkPacketMinSize :: int
  junkPacketMaxSize :: int
  initPacketJunkSize :: int
  responsePacketJunkSize :: int
  initPacketMagicHeader :: "32 word"
  responsePacketMagicHeader :: "32 word"
  underloadPacketMagicHeader :: "32 word"
  transportPacketMagicHeader :: "32 word"
  i1 :: "string option"
  i2 :: "string option"
  i3 :: "string option"
  i4 :: "string option"
  i5 :: "string option"
  j1 :: "string option"
  j2 :: "string option"
  j3 :: "string option"
  itime :: "int option"

record DeviceConfig =
  SecretKey :: string
  Endpoint :: "Addr list"
  Peers :: "PeerConfig list"
  DNS :: "Addr list"
  MTU :: int
  ListenPort :: "int option"
  CheckAlive :: "Addr list"
  DomainBlockingEnabled :: bool
  BlockedDomains :: "string list"
  CheckAliveInterval :: int
  ASecConfig :: "ASecConfigType option"

record DeviceSetting =
  IpcRequest :: string
  DNS :: "Addr list"
  DeviceAddr :: "Addr list"
  MTU :: int

record TCPClientTunnelConfig =
  BindAddress :: string
  Target :: string

record STDIOTunnelConfig =
  Target :: string

record TCPServerTunnelConfig =
  ListenPort :: int
  Target :: string

record Socks5Config =
  BindAddress :: string
  Username :: string
  Password :: string

record HTTPConfig =
  BindAddress :: string
  Username :: string
  Password :: string

text \<open>
  \<^verbatim>\<open>RoutineSpawner\<close> is an interface; its values are the routine configurations. The
  five structs are declared in the configuration module, the variants the specification
  lists. In routine.go only \<^verbatim>\<open>*Socks5Config\<close> and \<^verbatim>\<open>*HTTPConfig\<close> have the method
  \<^verbatim>\<open>SpawnRoutine\<close>; the three forwarder variants are kept here so that properties
  about them can be stated.
\<close>

datatype RoutineSpawner =
    Socks5 Socks5Config
  | HTTP HTTPConfig
  | TCPClientTunnel TCPClientTunnelConfig
  | TCPServerTunnel TCPServerTunnelConfig
  | STDIOTunnel STDIOTunnelConfig

record Configuration =
  Device :: DeviceConfig
  Routines :: "RoutineSpawner list"

text \<open>The zero value \<^verbatim>\<open>ASecConfigType{}\<close> and the device \<^verbatim>\<open>DeviceConfig{MTU: 1420}\<close>.\<close>

definition zero_ASecConfig :: ASecConfigType where
  "zero_ASecConfig =
     \<lparr>junkPacketCount = 0, junkPacketMinSize = 0, junkPacketMaxSize = 0,
      initPacketJunkSize = 0, responsePacketJunkSize = 0,
      initPacketMagicHeader = 0, responsePacketMagicHeader = 0,
      underloadPacketMagicHeader = 0, transportPacketMagicHeader = 0,
      i1 = None, i2 = None, i3 = None, i4 = None, i5 = None,
      j1 = None, j2 = None, j3 = None, itime = None\<rparr>"

definition new_DeviceConfig :: DeviceConfig where
  "new_DeviceConfig =
     \<lparr>SecretKey = [], Endpoint = [], Peers = [], DeviceConfig.DNS = [],
      DeviceConfig.MTU = 1420, DeviceConfig.ListenPort = None, CheckAlive = [],
      DomainBlockingEnabled = False, BlockedDomains = [], CheckAliveInterval = 0,
      ASecConfig = None\<rparr>"

section \<open>Parsing single values (configuration module)\<close>

definition parseString :: "Lib \<Rightarrow> Section \<Rightarrow> string \<Rightarrow> error + string" where
  "parseString lib section keyName =
     (case Key section (ToLower keyName) of
        None \<Rightarrow> Inl (New (keyName @ '' should not be empty''))
      | Some v \<Rightarrow>
          if HasPrefix v ''$'' then
            (if HasPrefix v ''$$'' then Inr (Replace1 v ''$$'' ''$'')
             else (case LookupEnv lib (TrimPrefix v ''$'') of
                     None \<Rightarrow> Inl (New (keyName @ '' references unset environment variable '' @ v))
                   | Some w \<Rightarrow> Inr w))
          else Inr v)"

definition parsePort :: "Lib \<Rightarrow> Section \<Rightarrow> string \<Rightarrow> error + int" where
  "parsePort lib section keyName =
     (case Key section keyName of
        None \<Rightarrow> Inl (New (keyName @ '' should not be empty''))
      | Some v \<Rightarrow>
          (case lib_call (key_Int lib v) of
             Inl e \<Rightarrow> Inl e
           | Inr port \<Rightarrow>
               if \<not> (port \<ge> 0 \<and> port < 65536)
               then Inl (New ''port should be >= 0 and < 65536'')
               else Inr port))"

definition encodeBase64ToHex :: "Lib \<Rightarrow> string \<Rightarrow> error + string" where
  "encodeBase64ToHex lib k =
     (case lib_call (DecodeString lib k) of
        Inl e \<Rightarrow> Inl (New (''invalid base64 string: '' @ k))
      | Inr decoded \<Rightarrow>
          if length decoded \<noteq> 32 then Inl (New (''key should be 32 bytes: '' @ k))
          else Inr (EncodeToString decoded))"

definition parseBase64KeyToHex :: "Lib \<Rightarrow> Section \<Rightarrow> string \<Rightarrow> error + string" where
  "parseBase64KeyToHex lib section keyName =
     (case parseString lib section keyName of
        Inl e \<Rightarrow> Inl e
      | Inr k \<Rightarrow> encodeBase64ToHex lib k)"

section \<open>Parsing comma-separated lists\<close>

fun parseNetIP_loop :: "Lib \<Rightarrow> string list \<Rightarrow> Addr list \<Rightarrow> error + Addr list" where
  "parseNetIP_loop lib [] ips = Inr ips"
| "parseNetIP_loop lib (s # keys) ips =
     (let str = TrimSpace s in
      if length str = 0 then parseNetIP_loop lib keys ips
      else (case lib_call (ParseAddr lib str) of
              Inl e \<Rightarrow> Inl e
            | Inr ip \<Rightarrow> parseNetIP_loop lib keys (ips @ [ip])))"

definition parseNetIP :: "Lib \<Rightarrow> Section \<Rightarrow> string \<Rightarrow> error + Addr list" where
  "parseNetIP lib section keyName =
     (case parseString lib section keyName of
        Inl e \<Rightarrow> if Contains (Error e) ''should not be empty'' then Inr [] else Inl e
      | Inr k \<Rightarrow> parseNetIP_loop lib (Split k CHR '','') [])"

definition parseStrings :: "Lib \<Rightarrow> Section \<Rightarrow> string \<Rightarrow> error + string list" where
  "parseStrings lib section keyName =
     (case parseString lib section keyName of
        Inl e \<Rightarrow> if Contains (Error e) ''should not be empty'' then Inr [] else Inl e
      | Inr k \<Rightarrow> Inr (map TrimSpace (Split k CHR '','')))"

fun parseCIDRNetIP_loop :: "Lib \<Rightarrow> string list \<Rightarrow> Addr list \<Rightarrow> error + Addr list" where
  "parseCIDRNetIP_loop lib [] ips = Inr ips"
| "parseCIDRNetIP_loop lib (s # keys) ips =
     (let str = TrimSpace s in
      if length str = 0 then parseCIDRNetIP_loop lib keys ips
      else (case lib_call (ParseAddr lib str) of
              Inr addr \<Rightarrow> parseCIDRNetIP_loop lib keys (ips @ [addr])
            | Inl _ \<Rightarrow>
                (case lib_call (ParsePrefix lib str) of
                   Inl e \<Rightarrow> Inl e
                 | Inr prefix \<Rightarrow> parseCIDRNetIP_loop lib keys (ips @ [Prefix_Addr prefix]))))"

definition parseCIDRNetIP :: "Lib \<Rightarrow> Section \<Rightarrow> string \<Rightarrow> error + Addr list" where
  "parseCIDRNetIP lib section keyName =
     (case parseString lib section keyName of
        Inl e \<Rightarrow> if Contains (Error e) ''should not be empty'' then Inr [] else Inl e
      | Inr k \<Rightarrow> parseCIDRNetIP_loop lib (Split k CHR '','') [])"

fun parseAllowedIPs_loop :: "Lib \<Rightarrow> string list \<Rightarrow> Prefix list \<Rightarrow> error + Prefix list" where
  "parseAllowedIPs_loop lib [] ips = Inr ips"
| "parseAllowedIPs_loop lib (s # keys) ips =
     (let str = TrimSpace s in
      if length str = 0 then parseAllowedIPs_loop lib keys ips
      else (case lib_call (ParsePrefix lib str) of
              Inl e \<Rightarrow> Inl e
            | Inr prefix \<Rightarrow> parseAllowedIPs_loop lib keys (ips @ [prefix])))"

definition parseAllowedIPs :: "Lib \<Rightarrow> Section \<Rightarrow> error + Prefix list" where
  "parseAllowedIPs lib section =
     (case parseString lib section ''AllowedIPs'' of
        Inl e \<Rightarrow> if Contains (Error e) ''should not be empty'' then Inr [] else Inl e
      | Inr k \<Rightarrow> parseAllowedIPs_loop lib (Split k CHR '','') [])"

definition resolveIPPAndPort :: "Lib \<Rightarrow> string \<Rightarrow> error + string" where
  "resolveIPPAndPort lib addr =
     (case lib_call (SplitHostPort lib addr) of
        Inl e \<Rightarrow> Inl e
      | Inr (host, port) \<Rightarrow>
          (case lib_call (ResolveIPAddr lib host) of
             Inl e \<Rightarrow> Inl e
           | Inr ip \<Rightarrow> Inr (JoinHostPort lib ip port)))"
section \<open>The obfuscation profile (\<^verbatim>\<open>ParseASecConfig\<close>, \<^verbatim>\<open>ValidateASecConfig\<close>)\<close>

text \<open>
  \<^verbatim>\<open>initializeASecConfig\<close>: the profile is created, zeroed, the first time a key of
  it is met.
\<close>

definition initializeASecConfig :: "ASecConfigType option \<Rightarrow> ASecConfigType" where
  "initializeASecConfig a = (case a of None \<Rightarrow> zero_ASecConfig | Some c \<Rightarrow> c)"

text \<open>
  The source repeats one block for each of \<^verbatim>\<open>Jc\<close>, \<^verbatim>\<open>Jmin\<close>, \<^verbatim>\<open>Jmax\<close>, \<^verbatim>\<open>S1\<close>,
  \<^verbatim>\<open>S2\<close>: read the key if present, parse an \<^verbatim>\<open>int\<close>, reject
  \<^verbatim>\<open>value < 0 || value > hi\<close> with the field's message, create the profile, store.
\<close>

definition asec_int_field ::
  "Lib \<Rightarrow> Section \<Rightarrow> string \<Rightarrow> int \<Rightarrow> string \<Rightarrow> (int \<Rightarrow> ASecConfigType \<Rightarrow> ASecConfigType)
   \<Rightarrow> ASecConfigType option \<Rightarrow> error + ASecConfigType option" where
  "asec_int_field lib section name hi msg store a =
     (case GetKey section name of
        None \<Rightarrow> Inr a
      | Some v \<Rightarrow>
          (case lib_call (key_Int lib v) of
             Inl e \<Rightarrow> Inl e
           | Inr val \<Rightarrow>
               if val < 0 \<or> val > hi then Inl (New msg)
               else Inr (Some (store val (initializeASecConfig a)))))"

text \<open>
  The block of \<^verbatim>\<open>H1\<close> to \<^verbatim>\<open>H4\<close>: parse a \<^verbatim>\<open>uint64\<close>, reject
  \<^verbatim>\<open>value64 < 1 || value64 > 4294967295\<close>, store \<^verbatim>\<open>uint32(value64)\<close>.
\<close>

definition asec_header_field ::
  "Lib \<Rightarrow> Section \<Rightarrow> string \<Rightarrow> string \<Rightarrow> (32 word \<Rightarrow> ASecConfigType \<Rightarrow> ASecConfigType)
   \<Rightarrow> ASecConfigType option \<Rightarrow> error + ASecConfigType option" where
  "asec_header_field lib section name msg store a =
     (case GetKey section name of
        None \<Rightarrow> Inr a
      | Some v \<Rightarrow>
          (case lib_call (key_Uint64 lib v) of
             Inl e \<Rightarrow> Inl e
           | Inr value64 \<Rightarrow>
               if value64 < 1 \<or> value64 > 4294967295 then Inl (New msg)
               else Inr (Some (store (ucast value64) (initializeASecConfig a)))))"

text \<open>The block of \<^verbatim>\<open>I1\<close> to \<^verbatim>\<open>I5\<close> and \<^verbatim>\<open>J1\<close> to \<^verbatim>\<open>J3\<close>: the string, verbatim.\<close>

definition asec_string_field ::
  "Section \<Rightarrow> string \<Rightarrow> (string \<Rightarrow> ASecConfigType \<Rightarrow> ASecConfigType)
   \<Rightarrow> ASecConfigType option \<Rightarrow> error + ASecConfigType option" where
  "asec_string_field section name store a =
     (case GetKey section name of
        None \<Rightarrow> Inr a
      | Some v \<Rightarrow> Inr (Some (store v (initializeASecConfig a))))"

definition asec_itime_field ::
  "Lib \<Rightarrow> Section \<Rightarrow> ASecConfigType option \<Rightarrow> error + ASecConfigType option" where
  "asec_itime_field lib section a =
     (case GetKey section ''ITime'' of
        None \<Rightarrow> Inr a
      | Some v \<Rightarrow>
          (case lib_call (key_Int lib v) of
             Inl e \<Rightarrow> Inl e
           | Inr val \<Rightarrow>
               if val < 0 then Inl (New ''value of the ITime field must be non-negative'')
               else Inr (Some ((initializeASecConfig a)\<lparr>itime := Some val\<rparr>))))"

text \<open>
  The first loop of \<^verbatim>\<open>ValidateASecConfig\<close> over the four headers, with the index
  \<open>i\<close>, the map \<^verbatim>\<open>seen\<close> and the flag \<^verbatim>\<open>anyHeaderSet\<close>; it returns the flag.
\<close>

fun headers_unique :: "nat \<Rightarrow> 32 word list \<Rightarrow> 32 word list \<Rightarrow> bool \<Rightarrow> error + bool" where
  "headers_unique i [] seen anyHeaderSet = Inr anyHeaderSet"
| "headers_unique i (h # hs) seen anyHeaderSet =
     (if h \<noteq> 0 then
        (if h \<in> set seen
         then Inl (New (''values of the H1-H4 fields must be unique; H'' @ show_nat (i + 1)
                        @ '' conflicts''))
         else headers_unique (i + 1) hs (h # seen) True)
      else headers_unique (i + 1) hs seen anyHeaderSet)"

fun headers_all_set :: "nat \<Rightarrow> 32 word list \<Rightarrow> error option" where
  "headers_all_set i [] = None"
| "headers_all_set i (h # hs) =
     (if h = 0
      then Some (New (''H'' @ show_nat (i + 1) @ '' is unset (0) while other headers are set; all H1-H4 must be explicitly set if any are used''))
      else headers_all_set (i + 1) hs)"

definition ValidateASecConfig :: "ASecConfigType option \<Rightarrow> error option" where
  "ValidateASecConfig config =
     (case config of
        None \<Rightarrow> None
      | Some c \<Rightarrow>
          if junkPacketCount c > 0 \<and> junkPacketMinSize c > junkPacketMaxSize c
          then Some (New ''value of the Jmin field must be less than or equal to Jmax field value'')
          else if 148 + initPacketJunkSize c = 92 + responsePacketJunkSize c
          then Some (New ''value of the field S1 + message initiation size (148) must not equal S2 + message response size (92)'')
          else
            (let headers = [initPacketMagicHeader c, responsePacketMagicHeader c,
                            underloadPacketMagicHeader c, transportPacketMagicHeader c]
             in case headers_unique 0 headers [] False of
                  Inl e \<Rightarrow> Some e
                | Inr anyHeaderSet \<Rightarrow>
                    if anyHeaderSet then headers_all_set 0 headers else None))"


definition ParseASecConfig :: "Lib \<Rightarrow> Section \<Rightarrow> error + ASecConfigType option" where
  "ParseASecConfig lib section =
     bindE (asec_int_field lib section ''Jc'' 200
              ''value of the Jc field must be within the range of 0 to 200''
              (\<lambda>v c. c\<lparr>junkPacketCount := v\<rparr>) None) (\<lambda>a.
     bindE (asec_int_field lib section ''Jmin'' 1280
              ''value of the Jmin field must be within the range of 0 to 1280''
              (\<lambda>v c. c\<lparr>junkPacketMinSize := v\<rparr>) a) (\<lambda>a.
     bindE (asec_int_field lib section ''Jmax'' 1280
              ''value of the Jmax field must be within the range of 0 to 1280''
              (\<lambda>v c. c\<lparr>junkPacketMaxSize := v\<rparr>) a) (\<lambda>a.
     bindE (asec_int_field lib section ''S1'' 1280
              ''value of the S1 field must be within the range of 0 to 1280''
              (\<lambda>v c. c\<lparr>initPacketJunkSize := v\<rparr>) a) (\<lambda>a.
     bindE (asec_int_field lib section ''S2'' 1280
              ''value of the S2 field must be within the range of 0 to 1280''
              (\<lambda>v c. c\<lparr>responsePacketJunkSize := v\<rparr>) a) (\<lambda>a.
     bindE (asec_header_field lib section ''H1''
              ''value of the H1 field must be within the range of 1 to 4294967295''
              (\<lambda>v c. c\<lparr>initPacketMagicHeader := v\<rparr>) a) (\<lambda>a.
     bindE (asec_header_field lib section ''H2''
              ''value of the H2 field must be within the range of 1 to 4294967295''
              (\<lambda>v c. c\<lparr>responsePacketMagicHeader := v\<rparr>) a) (\<lambda>a.
     bindE (asec_header_field lib section ''H3''
              ''value of the H3 field must be within the range of 1 to 4294967295''
              (\<lambda>v c. c\<lparr>underloadPacketMagicHeader := v\<rparr>) a) (\<lambda>a.
     bindE (asec_header_field lib section ''H4''
              ''value of the H4 field must be within the range of 1 to 4294967295''
              (\<lambda>v c. c\<lparr>transportPacketMagicHeader := v\<rparr>) a) (\<lambda>a.
     bindE (asec_string_field section ''I1'' (\<lambda>v c. c\<lparr>i1 := Some v\<rparr>) a) (\<lambda>a.
     bindE (asec_string_field section ''I2'' (\<lambda>v c. c\<lparr>i2 := Some v\<rparr>) a) (\<lambda>a.
     bindE (asec_string_field section ''I3'' (\<lambda>v c. c\<lparr>i3 := Some v\<rparr>) a) (\<lambda>a.
     bindE (asec_string_field section ''I4'' (\<lambda>v c. c\<lparr>i4 := Some v\<rparr>) a) (\<lambda>a.
     bindE (asec_string_field section ''I5'' (\<lambda>v c. c\<lparr>i5 := Some v\<rparr>) a) (\<lambda>a.
     bindE (asec_string_field section ''J1'' (\<lambda>v c. c\<lparr>j1 := Some v\<rparr>) a) (\<lambda>a.
     bindE (asec_string_field section ''J2'' (\<lambda>v c. c\<lparr>j2 := Some v\<rparr>) a) (\<lambda>a.
     bindE (asec_string_field section ''J3'' (\<lambda>v c. c\<lparr>j3 := Some v\<rparr>) a) (\<lambda>a.
     bindE (asec_itime_field lib section a) (\<lambda>a.
     (case ValidateASecConfig a of
        Some e \<Rightarrow> Inl e
      | None \<Rightarrow> Inr a)))))))))))))))))))"

section \<open>\<^verbatim>\<open>ParseInterface\<close>\<close>

text \<open>
  An optional integer key of the section: absent (\<open>Inr None\<close>), unparsable (the library's
  error) or its value. The source writes \<^verbatim>\<open>section.GetKey\<close> and \<^verbatim>\<open>sectionKey.Int()\<close>
  for \<^verbatim>\<open>MTU\<close>, \<^verbatim>\<open>ListenPort\<close>, \<^verbatim>\<open>CheckAliveInterval\<close> and
  \<^verbatim>\<open>PersistentKeepalive\<close>, with no range check.
\<close>

definition optional_Int :: "Lib \<Rightarrow> Section \<Rightarrow> string \<Rightarrow> error + int option" where
  "optional_Int lib section name =
     (case GetKey section name of
        None \<Rightarrow> Inr None
      | Some v \<Rightarrow> (case lib_call (key_Int lib v) of Inl e \<Rightarrow> Inl e | Inr val \<Rightarrow> Inr (Some val)))"

definition optional_Bool :: "Lib \<Rightarrow> Section \<Rightarrow> string \<Rightarrow> error + bool option" where
  "optional_Bool lib section name =
     (case GetKey section name of
        None \<Rightarrow> Inr None
      | Some v \<Rightarrow> (case lib_call (key_Bool lib v) of Inl e \<Rightarrow> Inl e | Inr val \<Rightarrow> Inr (Some val)))"

definition ParseInterface :: "Lib \<Rightarrow> File \<Rightarrow> DeviceConfig \<Rightarrow> error + DeviceConfig" where
  "ParseInterface lib cfg device =
     (case SectionsByName cfg ''Interface'' of
        Some [section] \<Rightarrow>
          bindE (parseCIDRNetIP lib section ''Address'') (\<lambda>address.
          let device = device\<lparr>Endpoint := address\<rparr> in
          bindE (parseBase64KeyToHex lib section ''PrivateKey'') (\<lambda>privKey.
          let device = device\<lparr>SecretKey := privKey\<rparr> in
          bindE (parseNetIP lib section ''DNS'') (\<lambda>dns.
          let device = device\<lparr>DeviceConfig.DNS := dns\<rparr> in
          bindE (optional_Int lib section ''MTU'') (\<lambda>mtu.
          let device = (case mtu of None \<Rightarrow> device
                        | Some v \<Rightarrow> device\<lparr>DeviceConfig.MTU := v\<rparr>) in
          bindE (optional_Int lib section ''ListenPort'') (\<lambda>port.
          let device = (case port of None \<Rightarrow> device
                        | Some v \<Rightarrow> device\<lparr>DeviceConfig.ListenPort := Some v\<rparr>) in
          bindE (parseNetIP lib section ''CheckAlive'') (\<lambda>checkAlive.
          let device = device\<lparr>CheckAlive := checkAlive\<rparr> in
          bindE (optional_Bool lib section ''DomainBlockingEnabled'') (\<lambda>blocking.
          let device = (case blocking of None \<Rightarrow> device
                        | Some v \<Rightarrow> device\<lparr>DomainBlockingEnabled := v\<rparr>) in
          bindE (parseStrings lib section ''BlockedDomains'') (\<lambda>blockedDomains.
          let device = device\<lparr>BlockedDomains := blockedDomains\<rparr> in
          let device = device\<lparr>CheckAliveInterval := 5\<rparr> in
          bindE (optional_Int lib section ''CheckAliveInterval'') (\<lambda>interval.
          bindE (case interval of
                   None \<Rightarrow> Inr device
                 | Some v \<Rightarrow>
                     if length checkAlive = 0
                     then Inl (New ''CheckAliveInterval is only valid when CheckAlive is set'')
                     else Inr (device\<lparr>CheckAliveInterval := v\<rparr>)) (\<lambda>device.
          bindE (ParseASecConfig lib section) (\<lambda>aSecConfig.
          Inr (device\<lparr>ASecConfig := aSecConfig\<rparr>))))))))))))
      | _ \<Rightarrow> Inl (New ''one and only one [Interface] is expected''))"

section \<open>\<^verbatim>\<open>ParsePeers\<close>\<close>

definition parsePeer :: "Lib \<Rightarrow> Section \<Rightarrow> error + PeerConfig" where
  "parsePeer lib section =
     (let peer = \<lparr>PublicKey = [],
                  PreSharedKey = ''0000000000000000000000000000000000000000000000000000000000000000'',
                  PeerConfig.Endpoint = None, KeepAlive = 0, AllowedIPs = []\<rparr> in
      bindE (parseBase64KeyToHex lib section ''PublicKey'') (\<lambda>decoded.
      let peer = peer\<lparr>PublicKey := decoded\<rparr> in
      bindE (case GetKey section ''PreSharedKey'' of
               None \<Rightarrow> Inr peer
             | Some v \<Rightarrow> bindE (encodeBase64ToHex lib v) (\<lambda>val. Inr (peer\<lparr>PreSharedKey := val\<rparr>))) (\<lambda>peer.
      bindE (case GetKey section ''Endpoint'' of
               None \<Rightarrow> Inr peer
             | Some v \<Rightarrow> bindE (resolveIPPAndPort lib (ToLower v))
                                 (\<lambda>decoded. Inr (peer\<lparr>PeerConfig.Endpoint := Some decoded\<rparr>))) (\<lambda>peer.
      bindE (optional_Int lib section ''PersistentKeepalive'') (\<lambda>keepalive.
      let peer = (case keepalive of None \<Rightarrow> peer | Some v \<Rightarrow> peer\<lparr>KeepAlive := v\<rparr>) in
      bindE (parseAllowedIPs lib section) (\<lambda>ips.
      Inr (peer\<lparr>AllowedIPs := ips\<rparr>)))))))"

fun ParsePeers_loop :: "Lib \<Rightarrow> Section list \<Rightarrow> PeerConfig list \<Rightarrow> error + PeerConfig list" where
  "ParsePeers_loop lib [] peers = Inr peers"
| "ParsePeers_loop lib (section # rest) peers =
     (case parsePeer lib section of
        Inl e \<Rightarrow> Inl e
      | Inr peer \<Rightarrow> ParsePeers_loop lib rest (peers @ [peer]))"

definition ParsePeers :: "Lib \<Rightarrow> File \<Rightarrow> PeerConfig list \<Rightarrow> error + PeerConfig list" where
  "ParsePeers lib cfg peers =
     (case SectionsByName cfg ''Peer'' of
        None \<Rightarrow> Inl (New ''at least one [Peer] is expected'')
      | Some secs \<Rightarrow>
          if length secs < 1 then Inl (New ''at least one [Peer] is expected'')
          else ParsePeers_loop lib secs peers)"

section \<open>Routines and \<^verbatim>\<open>Parse\<close>\<close>

text \<open>
  \<^verbatim>\<open>username, _ := parseString(section, "Username")\<close> drops the error: on failure the
  string is empty.
\<close>

definition or_empty :: "error + string \<Rightarrow> string" where
  "or_empty r = (case r of Inl _ \<Rightarrow> [] | Inr s \<Rightarrow> s)"

definition parseSocks5Config :: "Lib \<Rightarrow> Section \<Rightarrow> error + RoutineSpawner" where
  "parseSocks5Config lib section =
     (case parseString lib section ''BindAddress'' of
        Inl e \<Rightarrow> Inl e
      | Inr bindAddress \<Rightarrow>
          Inr (Socks5 \<lparr>Socks5Config.BindAddress = bindAddress,
                       Socks5Config.Username = or_empty (parseString lib section ''Username''),
                       Socks5Config.Password = or_empty (parseString lib section ''Password'')\<rparr>))"

definition parseHTTPConfig :: "Lib \<Rightarrow> Section \<Rightarrow> error + RoutineSpawner" where
  "parseHTTPConfig lib section =
     (case parseString lib section ''BindAddress'' of
        Inl e \<Rightarrow> Inl e
      | Inr bindAddress \<Rightarrow>
          Inr (HTTP \<lparr>HTTPConfig.BindAddress = bindAddress,
                     HTTPConfig.Username = or_empty (parseString lib section ''Username''),
                     HTTPConfig.Password = or_empty (parseString lib section ''Password'')\<rparr>))"

fun parseRoutines_loop ::
  "(Section \<Rightarrow> error + RoutineSpawner) \<Rightarrow> Section list \<Rightarrow> RoutineSpawner list
   \<Rightarrow> error + RoutineSpawner list" where
  "parseRoutines_loop f [] routines = Inr routines"
| "parseRoutines_loop f (section # rest) routines =
     (case f section of
        Inl e \<Rightarrow> Inl e
      | Inr config \<Rightarrow> parseRoutines_loop f rest (routines @ [config]))"

definition parseRoutinesConfig ::
  "RoutineSpawner list \<Rightarrow> File \<Rightarrow> string \<Rightarrow> (Section \<Rightarrow> error + RoutineSpawner)
   \<Rightarrow> error + RoutineSpawner list" where
  "parseRoutinesConfig routines cfg sectionName f =
     (case SectionsByName cfg sectionName of
        None \<Rightarrow> Inr routines
      | Some secs \<Rightarrow> parseRoutines_loop f secs routines)"

definition Parse :: "Lib \<Rightarrow> File \<Rightarrow> error + Configuration" where
  "Parse lib cfg =
     (let device = new_DeviceConfig in
      bindE (case GetKey (root cfg) ''WGConfig'' of
               None \<Rightarrow> Inr cfg
             | Some wgConf \<Rightarrow> lib_call (LoadSources lib wgConf)) (\<lambda>wgCfg.
      bindE (ParseInterface lib wgCfg device) (\<lambda>device.
      bindE (ParsePeers lib wgCfg (Peers device)) (\<lambda>peers.
      let device = device\<lparr>Peers := peers\<rparr> in
      bindE (parseRoutinesConfig [] cfg ''Socks5'' (parseSocks5Config lib)) (\<lambda>routinesSpawners.
      bindE (parseRoutinesConfig routinesSpawners cfg ''http'' (parseHTTPConfig lib))
        (\<lambda>routinesSpawners.
      Inr \<lparr>Device = device, Routines = routinesSpawners\<rparr>))))))"
section \<open>The UAPI request (\<^verbatim>\<open>CreateIPCRequest\<close>)\<close>

text \<open>
  \<^verbatim>\<open>CreateIPCRequest(conf, isUpdate)\<close> of the configuration module writes into a
  buffer; \<open>WriteString\<close> appends. (The file wireguard.go of the sources holds an older
  copy of the function, with one argument: it writes neither \<^verbatim>\<open>replace_peers\<close> nor
  \<^verbatim>\<open>replace_allowed_ips\<close>, and its second fallback line is \<^verbatim>\<open>allowed_ip=::0/0\<close>. The
  two cannot be compiled together; the one modelled is the one with the refresh path.) \<^verbatim>\<open>heredoc.Doc\<close> removes the leading line break and
  the common indentation of its literal, so the two literals of the source are
  \<^verbatim>\<open>"public_key=%s\npersistent_keepalive_interval=%d\npreshared_key=%s\n"\<close> and
  \<^verbatim>\<open>"allowed_ip=0.0.0.0/0\nallowed_ip=::/0\n"\<close>.
\<close>

definition WriteString :: "string \<Rightarrow> string \<Rightarrow> string" where
  "WriteString buf s = buf @ s"

text \<open>\<^verbatim>\<open>if p != nil { b.WriteString(fmt.Sprintf("key=%s\n", *p)) }\<close>\<close>

definition write_optional :: "string \<Rightarrow> string \<Rightarrow> string option \<Rightarrow> string" where
  "write_optional buf k p =
     (case p of None \<Rightarrow> buf | Some v \<Rightarrow> WriteString buf (k @ ''='' @ v @ ''\<newline>''))"

definition aSecBuilder :: "ASecConfigType \<Rightarrow> string" where
  "aSecBuilder aSecConfig =
     (let b = WriteString [] (''jc='' @ show_int (junkPacketCount aSecConfig) @ ''\<newline>'');
          b = WriteString b (''jmin='' @ show_int (junkPacketMinSize aSecConfig) @ ''\<newline>'');
          b = WriteString b (''jmax='' @ show_int (junkPacketMaxSize aSecConfig) @ ''\<newline>'');
          b = WriteString b (''s1='' @ show_int (initPacketJunkSize aSecConfig) @ ''\<newline>'');
          b = WriteString b (''s2='' @ show_int (responsePacketJunkSize aSecConfig) @ ''\<newline>'');
          b = WriteString b (''h1='' @ show_nat (unat (initPacketMagicHeader aSecConfig)) @ ''\<newline>'');
          b = WriteString b (''h2='' @ show_nat (unat (responsePacketMagicHeader aSecConfig)) @ ''\<newline>'');
          b = WriteString b (''h3='' @ show_nat (unat (underloadPacketMagicHeader aSecConfig)) @ ''\<newline>'');
          b = WriteString b (''h4='' @ show_nat (unat (transportPacketMagicHeader aSecConfig)) @ ''\<newline>'');
          b = write_optional b ''i1'' (i1 aSecConfig);
          b = write_optional b ''i2'' (i2 aSecConfig);
          b = write_optional b ''i3'' (i3 aSecConfig);
          b = write_optional b ''i4'' (i4 aSecConfig);
          b = write_optional b ''i5'' (i5 aSecConfig);
          b = write_optional b ''j1'' (j1 aSecConfig);
          b = write_optional b ''j2'' (j2 aSecConfig);
          b = write_optional b ''j3'' (j3 aSecConfig);
          b = (case itime aSecConfig of
                 None \<Rightarrow> b
               | Some t \<Rightarrow> WriteString b (''itime='' @ show_int t @ ''\<newline>''))
      in b)"

fun write_allowed_ips :: "string \<Rightarrow> Prefix list \<Rightarrow> string" where
  "write_allowed_ips request [] = request"
| "write_allowed_ips request (ip # ips) =
     write_allowed_ips (WriteString request (''allowed_ip='' @ Prefix_String ip @ ''\<newline>'')) ips"

text \<open>The body of the loop over \<^verbatim>\<open>conf.Peers\<close>.\<close>

definition write_peer :: "string \<Rightarrow> PeerConfig \<Rightarrow> string" where
  "write_peer request peer =
     (let request = WriteString request
            (''public_key='' @ PublicKey peer @ ''\<newline>''
             @ ''persistent_keepalive_interval='' @ show_int (KeepAlive peer) @ ''\<newline>''
             @ ''preshared_key='' @ PreSharedKey peer @ ''\<newline>'');
          request = write_optional request ''endpoint'' (PeerConfig.Endpoint peer);
          request = WriteString request ''replace_allowed_ips=true\<newline>''
      in if length (AllowedIPs peer) > 0 then write_allowed_ips request (AllowedIPs peer)
         else WriteString request ''allowed_ip=0.0.0.0/0\<newline>allowed_ip=::/0\<newline>'')"

fun write_peers :: "string \<Rightarrow> PeerConfig list \<Rightarrow> string" where
  "write_peers request [] = request"
| "write_peers request (peer # peers) = write_peers (write_peer request peer) peers"

definition ipc_request :: "DeviceConfig \<Rightarrow> bool \<Rightarrow> string" where
  "ipc_request conf isUpdate =
     (let request = WriteString [] (''private_key='' @ SecretKey conf @ ''\<newline>'');
          request = (case DeviceConfig.ListenPort conf of
                       None \<Rightarrow> request
                     | Some port \<Rightarrow> WriteString request (''listen_port='' @ show_int port @ ''\<newline>''));
          request = (case ASecConfig conf of
                       None \<Rightarrow> request
                     | Some aSecConfig \<Rightarrow> WriteString request (aSecBuilder aSecConfig));
          request = (if isUpdate then WriteString request ''replace_peers=true\<newline>'' else request)
      in write_peers request (Peers conf))"

text \<open>The error \<^verbatim>\<open>CreateIPCRequest\<close> returns is always nil; the model returns the setting.\<close>

definition CreateIPCRequest :: "DeviceConfig \<Rightarrow> bool \<Rightarrow> DeviceSetting" where
  "CreateIPCRequest conf isUpdate =
     \<lparr>IpcRequest = ipc_request conf isUpdate, DeviceSetting.DNS = DeviceConfig.DNS conf,
      DeviceAddr = Endpoint conf, DeviceSetting.MTU = DeviceConfig.MTU conf\<rparr>"

section \<open>The health endpoint: \<^verbatim>\<open>/metrics\<close> (routine.go)\<close>

text \<open>
  The loop of \<^verbatim>\<open>ServeHTTP\<close> over \<^verbatim>\<open>strings.Split(get, "\n")\<close>: a piece that
  \<^verbatim>\<open>SplitN(peer, "=", 2)\<close> does not cut in two is written as it is, with no line break;
  otherwise the key, \<^verbatim>\<open>=\<close>, the value (or \<^verbatim>\<open>REDACTED\<close>) and a line break.
\<close>

fun metrics_loop :: "string list \<Rightarrow> string \<Rightarrow> string" where
  "metrics_loop [] buf = buf"
| "metrics_loop (peer # rest) buf =
     (case SplitN2 peer CHR ''='' of
        [pair0, pair1] \<Rightarrow>
          (let pair1 = (if pair0 = ''private_key'' \<or> pair0 = ''preshared_key''
                        then ''REDACTED'' else pair1);
               buf = WriteString buf pair0;
               buf = WriteString buf ''='';
               buf = WriteString buf pair1;
               buf = WriteString buf ''\<newline>''
           in metrics_loop rest buf)
      | _ \<Rightarrow> metrics_loop rest (WriteString buf peer))"

definition metrics_body :: "string \<Rightarrow> string" where
  "metrics_body get = metrics_loop (Split get CHR 0x0A) []"

text \<open>
  The case \<^verbatim>\<open>"/metrics"\<close> of \<^verbatim>\<open>ServeHTTP\<close>, from the result of \<^verbatim>\<open>d.Dev.IpcGet()\<close>
  to the status code and the body written.
\<close>

definition ServeHTTP_metrics :: "error + string \<Rightarrow> nat \<times> string" where
  "ServeHTTP_metrics ipcGet =
     (case ipcGet of
        Inl e \<Rightarrow> (500, [])
      | Inr get \<Rightarrow> (200, metrics_body get))"

section \<open>Proxy authentication (routine.go)\<close>

text \<open>
  The authenticators of the SOCKS5 library; \<^verbatim>\<open>socks5.StaticCredentials\<close> is a map from
  user names to passwords, here the association list of its literal.
\<close>

datatype Authenticator =
    NoAuthAuthenticator
  | UserPassAuthenticator "(string \<times> string) list"

text \<open>The head of \<^verbatim>\<open>Socks5Config.SpawnRoutine\<close>: the choice of \<^verbatim>\<open>authMethods\<close>.\<close>

definition Socks5_authMethods :: "Socks5Config \<Rightarrow> Authenticator list" where
  "Socks5_authMethods config =
     (let uname = Socks5Config.Username config in
      if uname \<noteq> []
      then [] @ [UserPassAuthenticator [(uname, Socks5Config.Password config)]]
      else [] @ [NoAuthAuthenticator])"

text \<open>The field \<^verbatim>\<open>authRequired\<close> that \<^verbatim>\<open>HTTPConfig.SpawnRoutine\<close> computes.\<close>

definition HTTP_authRequired :: "HTTPConfig \<Rightarrow> bool" where
  "HTTP_authRequired config =
     (HTTPConfig.Username config \<noteq> [] \<or> HTTPConfig.Password config \<noteq> [])"

section \<open>The resolver over the tunnel (dns.go)\<close>

text \<open>
  A \<^verbatim>\<open>net.IP\<close> is a byte slice, \<open>None\<close> when nil. Of a resource record only the kind
  matters: \<^verbatim>\<open>*dns.A\<close> with its field \<^verbatim>\<open>A\<close>, \<^verbatim>\<open>*dns.AAAA\<close> with its field
  \<^verbatim>\<open>AAAA\<close>, or any other record.

  The exchange with the server (dial, pack, write, read with the deadline, unpack) is the
  parameter \<open>exchange\<close>: for a server, a name and a query type it gives the error of the
  first failing step or the answer section of the response.
\<close>

type_synonym IP = "byte list option"

datatype RR = RR_A IP | RR_AAAA IP | RR_other

definition TypeA :: "16 word" where "TypeA = 1"
definition TypeAAAA :: "16 word" where "TypeAAAA = 28"

fun first_record :: "RR list \<Rightarrow> error + IP" where
  "first_record [] = Inl (New ''no matching DNS records found'')"
| "first_record (RR_A ip # rest) = Inr ip"
| "first_record (RR_AAAA ip # rest) = Inr ip"
| "first_record (RR_other # rest) = first_record rest"

definition queryDNS ::
  "(string \<Rightarrow> string \<Rightarrow> 16 word \<Rightarrow> error + RR list) \<Rightarrow> string \<Rightarrow> string \<Rightarrow> 16 word \<Rightarrow> error + IP" where
  "queryDNS exchange dnsServer name qtype =
     (case exchange dnsServer name qtype of
        Inl e \<Rightarrow> Inl e
      | Inr answer \<Rightarrow> first_record answer)"

definition HasSuffix :: "string \<Rightarrow> string \<Rightarrow> bool" where
  "HasSuffix s suffix =
     (length suffix \<le> length s \<and> drop (length s - length suffix) s = suffix)"

text \<open>
  \<^verbatim>\<open>Resolve\<close>, in the version of dns.go without search domains; \<open>vt\<close> is the list
  \<^verbatim>\<open>r.vt.Conf.DNS\<close>, \<open>None\<close> when \<^verbatim>\<open>r.vt\<close> is nil. The context it returns is the
  one it was given.
\<close>

definition Resolve ::
  "(string \<Rightarrow> string \<Rightarrow> 16 word \<Rightarrow> error + RR list) \<Rightarrow> string list option \<Rightarrow> string
   \<Rightarrow> error + byte list" where
  "Resolve exchange vt name =
     (case vt of
        None \<Rightarrow> Inl (New ''no DNS servers configured'')
      | Some [] \<Rightarrow> Inl (New ''no DNS servers configured'')
      | Some (dns0 # _) \<Rightarrow>
          (let dnsServer = (if \<not> Contains dns0 '':'' then dns0 @ '':53'' else dns0);
               name = (if \<not> HasSuffix name ''.'' then name @ ''.'' else name)
           in case queryDNS exchange dnsServer name TypeA of
                Inr (Some ip) \<Rightarrow> Inr ip
              | _ \<Rightarrow>
                  (case queryDNS exchange dnsServer name TypeAAAA of
                     Inr (Some ip) \<Rightarrow> Inr ip
                   | _ \<Rightarrow> Inl (New ''no A or AAAA records found''))))"

section \<open>A sample library and sample documents\<close>

text \<open>
  Concrete inputs for the closed theorems below. \<open>sample_lib\<close> answers as the real
  libraries do on the few strings the sample documents hold and fails everywhere else:
  numbers are decimal, the Base64 text of 43 letters \<^verbatim>\<open>A\<close> and one \<^verbatim>\<open>=\<close> decodes to 32
  zero bytes, and the only variable of the environment is \<^verbatim>\<open>PROXY_PASS\<close>.
\<close>

definition digit_value :: "char \<Rightarrow> nat option" where
  "digit_value =
     map_of [(CHR ''0'', 0), (CHR ''1'', 1), (CHR ''2'', 2), (CHR ''3'', 3), (CHR ''4'', 4),
             (CHR ''5'', 5), (CHR ''6'', 6), (CHR ''7'', 7), (CHR ''8'', 8), (CHR ''9'', 9)]"

fun decimal :: "string \<Rightarrow> nat \<Rightarrow> nat option" where
  "decimal [] acc = Some acc"
| "decimal (c # cs) acc =
     (case digit_value c of None \<Rightarrow> None | Some d \<Rightarrow> decimal cs (10 * acc + d))"

text \<open>
  A decimal numeral as every base reads it: digits only, with no leading zero (which
  \<^verbatim>\<open>strconv\<close> with base 0 would read as octal).
\<close>

definition plain_decimal :: "string \<Rightarrow> nat option" where
  "plain_decimal s =
     (case s of
        [] \<Rightarrow> None
      | c # cs \<Rightarrow> if c = CHR ''0'' \<and> cs \<noteq> [] then None else decimal s 0)"

definition sample_Int :: "string \<Rightarrow> string + int" where
  "sample_Int s =
     (case s of
        [] \<Rightarrow> Inl ''invalid syntax''
      | c # cs \<Rightarrow>
          if c = CHR ''-'' then
            (case plain_decimal cs of
               None \<Rightarrow> Inl ''invalid syntax''
             | Some n \<Rightarrow> if n \<le> 2 ^ 63 then Inr (- int n) else Inl ''value out of range'')
          else (case plain_decimal s of
                  None \<Rightarrow> Inl ''invalid syntax''
                | Some n \<Rightarrow> if n < 2 ^ 63 then Inr (int n) else Inl ''value out of range''))"

definition sample_Uint64 :: "string \<Rightarrow> string + 64 word" where
  "sample_Uint64 s =
     (case plain_decimal s of
        None \<Rightarrow> Inl ''invalid syntax''
      | Some n \<Rightarrow> if n < 2 ^ 64 then Inr (word_of_nat n) else Inl ''value out of range'')"

definition sample_key :: string where
  "sample_key = ''AAAAAAAAAAAAAAAAAAAAAAAAAAAAAAAAAAAAAAAAAAA=''"

definition sample_lib :: Lib where
  "sample_lib =
     \<lparr>LookupEnv = (\<lambda>name. if name = ''PROXY_PASS'' then Some ''hunter2'' else None),
      key_Int = sample_Int,
      key_Uint64 = sample_Uint64,
      key_Bool = (\<lambda>s. if s = ''true'' then Inr True else if s = ''false'' then Inr False
                       else Inl ''invalid syntax''),
      DecodeString = (\<lambda>s. if s = sample_key then Inr (replicate 32 0)
                           else Inl ''illegal base64 data''),
      ParseAddr = (\<lambda>s. if s = ''10.5.0.2'' \<or> s = ''1.1.1.1'' then Inr (Addr s)
                        else Inl ''unable to parse IP''),
      ParsePrefix = (\<lambda>s. if s = ''0.0.0.0/0'' then Inr (Prefix (Addr ''0.0.0.0'') 0)
                          else if s = ''::/0'' then Inr (Prefix (Addr ''::'') 0)
                          else Inl ''no slash''),
      SplitHostPort = (\<lambda>s. if s = ''94.140.11.15:51820'' then Inr (''94.140.11.15'', ''51820'')
                            else Inl ''missing port in address''),
      ResolveIPAddr = (\<lambda>h. if h = ''94.140.11.15'' then Inr h else Inl ''no such host''),
      JoinHostPort = (\<lambda>h p. if CHR '':'' \<in> set h \<or> CHR ''%'' \<in> set h
                             then ''['' @ h @ '']:'' @ p else h @ '':'' @ p),
      LoadSources = (\<lambda>path. Inl ''no such file or directory'')\<rparr>"

text \<open>
  The \<^verbatim>\<open>[Interface]\<close> and \<^verbatim>\<open>[Peer]\<close> sections of the repository's tests, with the
  sample key, and the documents built from them.
\<close>

definition sample_interface :: Section where
  "sample_interface =
     [(''privatekey'', sample_key), (''address'', ''10.5.0.2''), (''dns'', ''1.1.1.1'')]"

definition sample_peer :: Section where
  "sample_peer =
     [(''publickey'', sample_key), (''allowedips'', ''0.0.0.0/0, ::/0''),
      (''endpoint'', ''94.140.11.15:51820''), (''persistentkeepalive'', ''25'')]"

definition sample_file :: "Section \<Rightarrow> (string \<times> Section) list \<Rightarrow> File" where
  "sample_file extra routines =
     \<lparr>root = [],
      sections = [(''interface'', sample_interface @ extra), (''peer'', sample_peer)] @ routines\<rparr>"

definition zero_key_hex :: string where
  "zero_key_hex = ''0000000000000000000000000000000000000000000000000000000000000000''"

definition sample_peer_config :: PeerConfig where
  "sample_peer_config =
     \<lparr>PublicKey = zero_key_hex, PreSharedKey = zero_key_hex,
      PeerConfig.Endpoint = Some ''94.140.11.15:51820'', KeepAlive = 25,
      AllowedIPs = [Prefix (Addr ''0.0.0.0'') 0, Prefix (Addr ''::'') 0]\<rparr>"

definition sample_device :: DeviceConfig where
  "sample_device =
     \<lparr>SecretKey = zero_key_hex, Endpoint = [Addr ''10.5.0.2''], Peers = [sample_peer_config],
      DeviceConfig.DNS = [Addr ''1.1.1.1''], DeviceConfig.MTU = 1420,
      DeviceConfig.ListenPort = None, CheckAlive = [], DomainBlockingEnabled = False,
      BlockedDomains = [[]], CheckAliveInterval = 5, ASecConfig = None\<rparr>"

section \<open>Reading a text as lines of \<^verbatim>\<open>key=value\<close>\<close>

text \<open>
  The vocabulary of the properties: the lines of a text (the pieces between line breaks;
  a text that ends with a line break has a last, empty piece), the key of a line (what
  precedes its first \<^verbatim>\<open>=\<close>) and its value (what follows it).
\<close>

definition lines_of :: "string \<Rightarrow> string list" where
  "lines_of s = Split s CHR 0x0A"

definition key_of :: "string \<Rightarrow> string" where
  "key_of l = takeWhile (\<lambda>c. c \<noteq> CHR ''='') l"

definition value_of :: "string \<Rightarrow> string" where
  "value_of l = drop 1 (dropWhile (\<lambda>c. c \<noteq> CHR ''='') l)"

definition no_newline :: "string \<Rightarrow> bool" where
  "no_newline s = (CHR 0x0A \<notin> set s)"

text \<open>
  A UAPI text is line-oriented, one \<^verbatim>\<open>key=value\<close> per line: every line holds a
  \<^verbatim>\<open>=\<close> or is empty (as the piece after the last line break is).
\<close>

definition uapi_text :: "string \<Rightarrow> bool" where
  "uapi_text s = list_all (\<lambda>l. l = [] \<or> CHR ''='' \<in> set l) (lines_of s)"

definition secret_key :: "string \<Rightarrow> bool" where
  "secret_key k = (k = ''private_key'' \<or> k = ''preshared_key'')"

text \<open>What the \<^verbatim>\<open>/metrics\<close> output must hold for a line of the device's response.\<close>

definition redacted :: "string \<Rightarrow> string" where
  "redacted l = (if secret_key (key_of l) then key_of l @ ''=REDACTED'' else l)"

text \<open>
  A device configuration none of whose texts holds a line break. This restricts the
  configurations: \<^verbatim>\<open>CreateIPCRequest\<close> writes every text as it is, and the parser does
  not keep line breaks out of all of them. The keys it stores are hexadecimal and the
  prefixes are printed by \<^verbatim>\<open>net/netip\<close>, but \<^verbatim>\<open>I1\<close> to \<^verbatim>\<open>I5\<close> and \<^verbatim>\<open>J1\<close> to
  \<^verbatim>\<open>J3\<close> are stored as read, and of a peer's endpoint only the host is examined: what
  follows the last colon is stored as the port.
\<close>

definition no_newline_opt :: "string option \<Rightarrow> bool" where
  "no_newline_opt p = (case p of None \<Rightarrow> True | Some s \<Rightarrow> no_newline s)"

definition wf_peer :: "PeerConfig \<Rightarrow> bool" where
  "wf_peer p =
     (no_newline (PublicKey p) \<and> no_newline (PreSharedKey p)
      \<and> no_newline_opt (PeerConfig.Endpoint p)
      \<and> list_all (\<lambda>ip. no_newline (Prefix_String ip)) (AllowedIPs p))"

definition wf_asec :: "ASecConfigType \<Rightarrow> bool" where
  "wf_asec a =
     (no_newline_opt (i1 a) \<and> no_newline_opt (i2 a) \<and> no_newline_opt (i3 a)
      \<and> no_newline_opt (i4 a) \<and> no_newline_opt (i5 a) \<and> no_newline_opt (j1 a)
      \<and> no_newline_opt (j2 a) \<and> no_newline_opt (j3 a))"

definition wf_conf :: "DeviceConfig \<Rightarrow> bool" where
  "wf_conf conf =
     (no_newline (SecretKey conf)
      \<and> (case ASecConfig conf of None \<Rightarrow> True | Some a \<Rightarrow> wf_asec a)
      \<and> list_all wf_peer (Peers conf))"

text \<open>The keys the request must hold, in order, as section 4.2 of the specification lists them.\<close>

definition present :: "string \<Rightarrow> 'a option \<Rightarrow> string list" where
  "present k p = (case p of None \<Rightarrow> [] | Some _ \<Rightarrow> [k])"

definition asec_keys :: "ASecConfigType \<Rightarrow> string list" where
  "asec_keys a =
     [''jc'', ''jmin'', ''jmax'', ''s1'', ''s2'', ''h1'', ''h2'', ''h3'', ''h4'']
     @ present ''i1'' (i1 a) @ present ''i2'' (i2 a) @ present ''i3'' (i3 a)
     @ present ''i4'' (i4 a) @ present ''i5'' (i5 a)
     @ present ''j1'' (j1 a) @ present ''j2'' (j2 a) @ present ''j3'' (j3 a)
     @ present ''itime'' (itime a)"

definition device_keys :: "DeviceConfig \<Rightarrow> bool \<Rightarrow> string list" where
  "device_keys conf isUpdate =
     [''private_key''] @ present ''listen_port'' (DeviceConfig.ListenPort conf)
     @ (case ASecConfig conf of None \<Rightarrow> [] | Some a \<Rightarrow> asec_keys a)
     @ (if isUpdate then [''replace_peers''] else [])"

definition peer_keys :: "PeerConfig \<Rightarrow> string list" where
  "peer_keys p =
     [''public_key'', ''persistent_keepalive_interval'', ''preshared_key'']
     @ present ''endpoint'' (PeerConfig.Endpoint p)
     @ [''replace_allowed_ips'']
     @ replicate (if AllowedIPs p = [] then 2 else length (AllowedIPs p)) ''allowed_ip''"

text \<open>The \<^verbatim>\<open>allowed_ip\<close> lines of a peer, as section 3 of the specification gives them.\<close>

definition allowed_ip_lines :: "PeerConfig \<Rightarrow> string list" where
  "allowed_ip_lines p =
     (if AllowedIPs p = [] then [''allowed_ip=0.0.0.0/0'', ''allowed_ip=::/0'']
      else map (\<lambda>ip. ''allowed_ip='' @ Prefix_String ip) (AllowedIPs p))"

text \<open>The request line by line, for the proofs: what each write of the serializer adds.\<close>

definition opt_line :: "string \<Rightarrow> string option \<Rightarrow> string list" where
  "opt_line k p = (case p of None \<Rightarrow> [] | Some v \<Rightarrow> [k @ ''='' @ v])"

definition asec_lines :: "ASecConfigType \<Rightarrow> string list" where
  "asec_lines a =
     [''jc='' @ show_int (junkPacketCount a), ''jmin='' @ show_int (junkPacketMinSize a),
      ''jmax='' @ show_int (junkPacketMaxSize a), ''s1='' @ show_int (initPacketJunkSize a),
      ''s2='' @ show_int (responsePacketJunkSize a),
      ''h1='' @ show_nat (unat (initPacketMagicHeader a)),
      ''h2='' @ show_nat (unat (responsePacketMagicHeader a)),
      ''h3='' @ show_nat (unat (underloadPacketMagicHeader a)),
      ''h4='' @ show_nat (unat (transportPacketMagicHeader a))]
     @ opt_line ''i1'' (i1 a) @ opt_line ''i2'' (i2 a) @ opt_line ''i3'' (i3 a)
     @ opt_line ''i4'' (i4 a) @ opt_line ''i5'' (i5 a)
     @ opt_line ''j1'' (j1 a) @ opt_line ''j2'' (j2 a) @ opt_line ''j3'' (j3 a)
     @ opt_line ''itime'' (map_option show_int (itime a))"

definition device_lines :: "DeviceConfig \<Rightarrow> bool \<Rightarrow> string list" where
  "device_lines conf isUpdate =
     [''private_key='' @ SecretKey conf]
     @ opt_line ''listen_port'' (map_option show_int (DeviceConfig.ListenPort conf))
     @ (case ASecConfig conf of None \<Rightarrow> [] | Some a \<Rightarrow> asec_lines a)
     @ (if isUpdate then [''replace_peers=true''] else [])"

definition peer_head_lines :: "PeerConfig \<Rightarrow> string list" where
  "peer_head_lines p =
     [''public_key='' @ PublicKey p,
      ''persistent_keepalive_interval='' @ show_int (KeepAlive p),
      ''preshared_key='' @ PreSharedKey p]
     @ opt_line ''endpoint'' (PeerConfig.Endpoint p)
     @ [''replace_allowed_ips=true'']"

definition peer_lines :: "PeerConfig \<Rightarrow> string list" where
  "peer_lines p = peer_head_lines p @ allowed_ip_lines p"

definition unlines :: "string list \<Rightarrow> string" where
  "unlines ls = concat (map (\<lambda>l. l @ ''\<newline>'') ls)"

text \<open>
  What the \<^verbatim>\<open>/metrics\<close> loop writes for one piece of the response: a piece with a
  \<^verbatim>\<open>=\<close> as a redacted line with its line break, any other piece as it is.
\<close>

definition rendered :: "string \<Rightarrow> string" where
  "rendered l = (if CHR ''='' \<in> set l then redacted l @ ''\<newline>'' else l)"

section \<open>Further notions for the properties\<close>


text \<open>The sections of a document that carry a given name, in document order.\<close>

definition sections_named :: "File \<Rightarrow> string \<Rightarrow> Section list" where
  "sections_named cfg name = map snd (filter (\<lambda>(n, s). n = ToLower name) (sections cfg))"

text \<open>A document without its forwarder sections.\<close>

definition forwarder_section :: "string \<Rightarrow> bool" where
  "forwarder_section n =
     (n = ''tcpclienttunnel'' \<or> n = ''tcpservertunnel'' \<or> n = ''stdiotunnel'')"

definition without_forwarders :: "File \<Rightarrow> File" where
  "without_forwarders cfg =
     cfg\<lparr>sections := filter (\<lambda>(n, s). \<not> forwarder_section n) (sections cfg)\<rparr>"

text \<open>
  A document with one section of each forwarder kind beside the sample interface and
  peer, and one with a SOCKS5 and an HTTP proxy and a forwarder.
\<close>

definition tunnels_file :: File where
  "tunnels_file =
     sample_file []
       [(''tcpclienttunnel'', [(''bindaddress'', ''127.0.0.1:25565''),
                              (''target'', ''play.example.org:25565'')]),
        (''tcpservertunnel'', [(''listenport'', ''3422''), (''target'', ''localhost:25545'')]),
        (''stdiotunnel'', [(''target'', ''ssh.example.org:22'')])]"

definition proxies_file :: File where
  "proxies_file =
     sample_file []
       [(''tcpclienttunnel'', [(''bindaddress'', ''127.0.0.1:25565''),
                              (''target'', ''play.example.org:25565'')]),
        (''http'', [(''bindaddress'', ''127.0.0.1:3128'')]),
        (''socks5'', [(''bindaddress'', ''127.0.0.1:1080''), (''username'', ''alice''),
                     (''password'', ''$PROXY_PASS'')])]"

text \<open>
  A device with a listen port, an obfuscation profile and two peers: the first lists two
  prefixes, the second has no endpoint and no allowed IPs.
\<close>

definition two_peers_device :: DeviceConfig where
  "two_peers_device =
     sample_device
       \<lparr>Peers :=
          [sample_peer_config
             \<lparr>AllowedIPs := [Prefix (Addr ''10.0.0.0'') 8, Prefix (Addr ''fd00::'') 8]\<rparr>,
           sample_peer_config\<lparr>PeerConfig.Endpoint := None, AllowedIPs := []\<rparr>],
        DeviceConfig.ListenPort := Some 51820,
        ASecConfig :=
          Some (zero_ASecConfig
                  \<lparr>junkPacketCount := 4, junkPacketMinSize := 10, junkPacketMaxSize := 50,
                   initPacketMagicHeader := 1, responsePacketMagicHeader := 2,
                   underloadPacketMagicHeader := 3, transportPacketMagicHeader := 4,
                   i1 := Some ''<b 0xf6ab3267fa>'', itime := Some 120\<rparr>)\<rparr>"

text \<open>
  A document whose \<^verbatim>\<open>I1\<close> value runs over two lines, the second one reading
  \<^verbatim>\<open>listen_port=1\<close>, and no \<^verbatim>\<open>ListenPort\<close> key; the device \<^verbatim>\<open>ParseInterface\<close>
  builds from it, which has no listen port.
\<close>

definition two_line_i1_file :: File where
  "two_line_i1_file = sample_file [(''i1'', ''<b 0x01>\<newline>listen_port=1'')] []"

definition two_line_i1_device :: DeviceConfig where
  "two_line_i1_device =
     new_DeviceConfig
       \<lparr>SecretKey := zero_key_hex, Endpoint := [Addr ''10.5.0.2''],
        DeviceConfig.DNS := [Addr ''1.1.1.1''], BlockedDomains := [[]], CheckAliveInterval := 5,
        ASecConfig := Some (zero_ASecConfig\<lparr>i1 := Some ''<b 0x01>\<newline>listen_port=1''\<rparr>)\<rparr>"

text \<open>
  A device with one peer that has no allowed IPs and whose endpoint text runs over two
  lines, the second one reading \<^verbatim>\<open>allowed_ip=6.6.6.6/32\<close>.
\<close>

definition two_line_endpoint_peer :: PeerConfig where
  "two_line_endpoint_peer =
     sample_peer_config
       \<lparr>PeerConfig.Endpoint := Some ''94.140.11.15:51820\<newline>allowed_ip=6.6.6.6/32'',
        AllowedIPs := []\<rparr>"

definition two_line_endpoint_device :: DeviceConfig where
  "two_line_endpoint_device = sample_device\<lparr>Peers := [two_line_endpoint_peer]\<rparr>"

text \<open>
  A server that answers the \<^verbatim>\<open>A\<close> query for \<^verbatim>\<open>example.com.\<close> with a \<^verbatim>\<open>CNAME\<close>, an
  \<^verbatim>\<open>AAAA\<close> record and an \<^verbatim>\<open>A\<close> record, in this order, and nothing else.
\<close>

definition sample_ip4 :: "byte list" where
  "sample_ip4 = [93, 184, 216, 34]"

definition sample_ip6 :: "byte list" where
  "sample_ip6 = [0x26, 0x06, 0x28, 0x00, 0x02, 0x20, 0x00, 0x01,
                 0x02, 0x48, 0x18, 0x93, 0x25, 0xc8, 0x19, 0x46]"

definition mixed_answer :: "string \<Rightarrow> string \<Rightarrow> 16 word \<Rightarrow> error + RR list" where
  "mixed_answer dnsServer name qtype =
     (if dnsServer = ''1.1.1.1:53'' \<and> name = ''example.com.'' \<and> qtype = TypeA
      then Inr [RR_other, RR_AAAA (Some sample_ip6), RR_A (Some sample_ip4)]
      else Inl (LibError ''i/o timeout''))"


section \<open>Lines and pieces\<close>

lemma Split_not_Nil: "Split s sep \<noteq> []"
  by (induction s) (auto split: list.splits)

lemma Split_no_sep: "sep \<notin> set s \<Longrightarrow> Split s sep = [s]"
  by (induction s) auto

lemma Split_append_sep:
  "sep \<notin> set a \<Longrightarrow> Split (a @ sep # rest) sep = a # Split rest sep"
  by (induction a) (auto split: list.splits)

lemma Split_pieces_no_sep: "l \<in> set (Split s sep) \<Longrightarrow> sep \<notin> set l"
proof (induction s arbitrary: l)
  case Nil
  then show ?case by simp
next
  case (Cons c cs)
  show ?case
  proof (cases "c = sep")
    case True
    with Cons show ?thesis by auto
  next
    case False
    obtain w ws where w: "Split cs sep = w # ws"
      using Split_not_Nil[of cs sep] by (cases "Split cs sep") auto
    with Cons.prems False have "l = c # w \<or> l \<in> set ws" by auto
    then show ?thesis
    proof
      assume "l = c # w"
      moreover have "sep \<notin> set w" using Cons.IH[of w] w by simp
      ultimately show ?thesis using False by auto
    next
      assume "l \<in> set ws"
      then show ?thesis using Cons.IH[of l] w by simp
    qed
  qed
qed

lemma Split_unlines:
  "\<forall>l\<in>set ls. sep \<notin> set l \<Longrightarrow> Split (concat (map (\<lambda>l. l @ [sep]) ls)) sep = ls @ [[]]"
proof (induction ls)
  case Nil
  then show ?case by simp
next
  case (Cons l ls)
  then have "Split (l @ sep # concat (map (\<lambda>l. l @ [sep]) ls)) sep
             = l # Split (concat (map (\<lambda>l. l @ [sep]) ls)) sep"
    by (intro Split_append_sep) simp
  with Cons show ?case by simp
qed

lemma lines_of_unlines:
  "list_all no_newline ls \<Longrightarrow> lines_of (unlines ls) = ls @ [[]]"
  unfolding lines_of_def unlines_def no_newline_def
  using Split_unlines[of ls "CHR 0x0A"] by (simp add: list_all_iff)

lemma SplitN2_eq:
  "CHR ''='' \<in> set l \<Longrightarrow> SplitN2 l CHR ''='' = [key_of l, value_of l]"
proof -
  assume "CHR ''='' \<in> set l"
  then have "dropWhile (\<lambda>c. c \<noteq> CHR ''='') l \<noteq> []"
    by (simp add: dropWhile_eq_Nil_conv) 
  then obtain x rest where "dropWhile (\<lambda>c. c \<noteq> CHR ''='') l = x # rest"
    by (cases "dropWhile (\<lambda>c. c \<noteq> CHR ''='') l") auto
  then show ?thesis by (simp add: SplitN2_def key_of_def value_of_def)
qed

lemma SplitN2_none:
  "sep \<notin> set l \<Longrightarrow> SplitN2 l sep = [l]"
proof -
  assume "sep \<notin> set l"
  then have "dropWhile (\<lambda>c. c \<noteq> sep) l = []"
    by auto
  then show ?thesis unfolding SplitN2_def by (simp only: list.case)
qed

lemma key_value_line:
  "CHR ''='' \<in> set l \<Longrightarrow> l = key_of l @ ''='' @ value_of l"
proof -
  assume "CHR ''='' \<in> set l"
  then have "dropWhile (\<lambda>c. c \<noteq> CHR ''='') l \<noteq> []"
    by (simp add: dropWhile_eq_Nil_conv)
  then obtain rest where r: "dropWhile (\<lambda>c. c \<noteq> CHR ''='') l = CHR ''='' # rest"
    using hd_dropWhile[of "\<lambda>c. c \<noteq> CHR ''=''" l]
    by (cases "dropWhile (\<lambda>c. c \<noteq> CHR ''='') l") auto
  have "l = takeWhile (\<lambda>c. c \<noteq> CHR ''='') l @ dropWhile (\<lambda>c. c \<noteq> CHR ''='') l"
    by simp
  with r show ?thesis by (simp add: key_of_def value_of_def)
qed

lemma key_of_append:
  "CHR ''='' \<notin> set k \<Longrightarrow> key_of (k @ CHR ''='' # v) = k"
  by (induction k) (auto simp: key_of_def)

lemma value_of_append:
  "CHR ''='' \<notin> set k \<Longrightarrow> value_of (k @ CHR ''='' # v) = v"
  by (induction k) (auto simp: value_of_def)

section \<open>Properties of the credential check\<close>

lemma unat_byte_less: "unat (v::byte) < 256"
proof -
  have "unat v < 2 ^ LENGTH(8)" by (rule unsigned_less)
  then show ?thesis by simp
qed

lemma unat_ucast_byte: "unat (ucast (v::byte) :: 32 word) = unat v"
  using unat_byte_less[of v] by (simp add: unsigned_ucast_eq take_bit_nat_eq_self)

lemma byte_of_char_unat: "unat (word_of_nat (of_char c) :: byte) = of_char c"
proof -
  have "(of_char c :: nat) mod 256 = of_char c"
    by (rule of_char_mod_256)
  then show ?thesis by (simp add: unat_of_nat)
qed

lemma bytes_of_eq_iff: "bytes_of s = bytes_of t \<longleftrightarrow> s = t"
proof -
  have "inj (\<lambda>c::char. (word_of_nat (of_char c) :: byte))"
  proof (rule injI)
    fix a b :: char
    assume "(word_of_nat (of_char a) :: byte) = word_of_nat (of_char b)"
    then have "unat (word_of_nat (of_char a) :: byte) = unat (word_of_nat (of_char b) :: byte)"
      by simp
    then have "(of_char a :: nat) = of_char b"
      by (simp only: byte_of_char_unat)
    then show "a = b" by simp
  qed
  then show ?thesis by (simp add: bytes_of_def inj_map_eq_map)
qed

lemma drop_bit_nonzero_byte:
  assumes "v \<noteq> 0"
  shows "drop_bit 31 ((ucast (v::byte) :: 32 word) - 1) = 0"
proof -
  let ?w = "ucast v :: 32 word"
  have u: "unat ?w = unat v" by (rule unat_ucast_byte)
  have "unat v < 256" by (rule unat_byte_less)
  moreover have "unat v \<noteq> 0" using assms by (simp add: unat_0_iff)
  ultimately have b: "unat ?w < 256" "unat ?w \<noteq> 0" using u by auto
  then have "?w \<noteq> 0" by (simp only: unat_0_iff) simp
  then have "unat (?w - 1) = unat ?w - 1" by (simp add: unat_minus_one)
  with b have "unat (?w - 1) < 2 ^ 31" by simp
  then have "drop_bit 31 (unat (?w - 1)) = 0"
    by (simp add: drop_bit_eq_div)
  then have "unat (drop_bit 31 (?w - 1)) = 0"
    by (simp only: unat_drop_bit_eq)
  then show ?thesis by (simp only: unat_0_iff)
qed

lemma ConstantTimeByteEq_zero: "ConstantTimeByteEq v 0 = (if v = 0 then 1 else 0)"
proof (cases "v = 0")
  case True
  then show ?thesis by (simp add: ConstantTimeByteEq_def drop_bit_eq_div)
next
  case False
  then show ?thesis by (simp add: ConstantTimeByteEq_def drop_bit_nonzero_byte)
qed

lemma ct_loop_zero_iff:
  "length x = length y \<Longrightarrow> ct_loop v x y = 0 \<longleftrightarrow> v = 0 \<and> x = y"
proof (induction v x y rule: ct_loop.induct)
  case (1 v a as b bs)
  have "a XOR b = 0 \<longleftrightarrow> a = b"
    by (metis bit.xor_self xor.left_neutral xor.assoc)
  with 1 show ?case by (auto simp: or_eq_0_iff)
qed simp_all

lemma ConstantTimeCompare_eq: "ConstantTimeCompare x y = (if x = y then 1 else 0)"
  by (auto simp: ConstantTimeCompare_def ConstantTimeByteEq_zero ct_loop_zero_iff)

text \<open>
  Claim C10. \<open>Valid\<close> returns true exactly when the supplied username equals the stored
  username and the supplied password equals the stored password; a validator holding two
  empty strings accepts the empty pair.
\<close>

theorem Valid_iff_both_equal:
  "(Valid c uname pass \<longleftrightarrow> username c = uname \<and> password c = pass)
   \<and> Valid \<lparr>username = [], password = []\<rparr> [] []"
  by (simp add: Valid_def Let_def ConstantTimeCompare_eq bytes_of_eq_iff)

theorem Valid_iff_both_equal_witness:
  "Valid \<lparr>username = ''alice'', password = ''s3cret''\<rparr> ''alice'' ''s3cret''
   \<and> \<not> Valid \<lparr>username = ''alice'', password = ''s3cret''\<rparr> ''alice'' ''s3cre''
   \<and> \<not> Valid \<lparr>username = ''alice'', password = ''s3cret''\<rparr> ''alicf'' ''s3cret''
   \<and> Valid \<lparr>username = [], password = []\<rparr> [] []"
  using Valid_iff_both_equal [of "\<lparr>username = ''alice'', password = ''s3cret''\<rparr>" "''alice''" "''s3cret''"]
        Valid_iff_both_equal [of "\<lparr>username = ''alice'', password = ''s3cret''\<rparr>" "''alice''" "''s3cre''"]
        Valid_iff_both_equal [of "\<lparr>username = ''alice'', password = ''s3cret''\<rparr>" "''alicf''" "''s3cret''"]
  by simp

section \<open>The metrics output\<close>

lemma key_of_no_eq: "CHR ''='' \<notin> set (key_of l)"
  unfolding key_of_def by (auto dest: set_takeWhileD)

lemma key_of_subset: "set (key_of l) \<subseteq> set l"
  unfolding key_of_def by (auto dest: set_takeWhileD)

lemma key_of_Nil: "key_of [] = []"
  by (simp add: key_of_def)

lemma not_secret_Nil: "\<not> secret_key []"
  by (simp add: secret_key_def)

lemma redacted_line:
  "CHR ''='' \<in> set l \<Longrightarrow>
   redacted l = key_of l @ ''='' @ (if secret_key (key_of l) then ''REDACTED'' else value_of l)"
  using key_value_line[of l] by (simp add: redacted_def)

lemma metrics_loop_rendered:
  "metrics_loop segs buf = buf @ concat (map rendered segs)"
proof (induction segs arbitrary: buf)
  case Nil
  then show ?case by simp
next
  case (Cons seg segs)
  show ?case
  proof (cases "CHR ''='' \<in> set seg")
    case False
    then show ?thesis
      by (simp add: SplitN2_none Cons.IH WriteString_def rendered_def)
  next
    case e: True
    have "metrics_loop (seg # segs) buf =
          metrics_loop segs (buf @ key_of seg @ ''='' @
             (if secret_key (key_of seg) then ''REDACTED'' else value_of seg) @ ''\<newline>'')"
      by (simp add: SplitN2_eq[OF e] WriteString_def Let_def secret_key_def)
    also have "\<dots> = buf @ (redacted seg @ ''\<newline>'') @ concat (map rendered segs)"
      by (simp add: Cons.IH redacted_line[OF e])
    finally show ?thesis using e by (simp add: rendered_def[of seg])
  qed
qed

lemma rendered_uapi:
  "list_all (\<lambda>l. l = [] \<or> CHR ''='' \<in> set l) segs \<Longrightarrow>
   concat (map rendered segs) = unlines (map redacted (filter (\<lambda>l. l \<noteq> []) segs))"
  by (induction segs) (auto simp: rendered_def unlines_def)

lemma redacted_no_newline: "no_newline l \<Longrightarrow> no_newline (redacted l)"
  using key_of_subset[of l] by (auto simp: redacted_def no_newline_def)

lemma lines_of_no_newline: "list_all no_newline (lines_of s)"
  by (auto simp: list_all_iff lines_of_def no_newline_def dest: Split_pieces_no_sep)

lemma key_of_redacted: "key_of (redacted l) = key_of l"
  using key_of_append[OF key_of_no_eq, of l "''REDACTED''"] by (simp add: redacted_def)

lemma metrics_body_rendered: "metrics_body get = concat (map rendered (lines_of get))"
  using metrics_loop_rendered[of "lines_of get" "[]"]
  by (simp add: metrics_body_def lines_of_def)

lemma metrics_body_lines:
  assumes "uapi_text get"
  shows "lines_of (metrics_body get) = map redacted (filter (\<lambda>l. l \<noteq> []) (lines_of get)) @ [[]]"
proof -
  have "metrics_body get = unlines (map redacted (filter (\<lambda>l. l \<noteq> []) (lines_of get)))"
    using assms by (simp add: metrics_body_rendered rendered_uapi uapi_text_def)
  moreover have "list_all no_newline (map redacted (filter (\<lambda>l. l \<noteq> []) (lines_of get)))"
    using lines_of_no_newline[of get] by (auto simp: list_all_iff redacted_no_newline)
  ultimately show ?thesis by (simp add: lines_of_unlines)
qed

text \<open>
  Claim C3. The \<^verbatim>\<open>/metrics\<close> handler answers 200 and writes, for each piece of the
  device's response, the piece itself when it holds no \<^verbatim>\<open>=\<close> and otherwise its key, a
  \<^verbatim>\<open>=\<close>, its value (\<^verbatim>\<open>REDACTED\<close> for the keys \<^verbatim>\<open>private_key\<close> and
  \<^verbatim>\<open>preshared_key\<close>) and a line break. For a UAPI get-response, a text of
  \<^verbatim>\<open>key=value\<close> lines, the lines of the body are therefore the non-empty lines of the
  response, in order, each \<^verbatim>\<open>private_key\<close> and \<^verbatim>\<open>preshared_key\<close> line with the value
  \<^verbatim>\<open>REDACTED\<close> and every other line unchanged, and no line of the body has one of the
  two keys with another value.
\<close>

theorem metrics_redaction:
  "ServeHTTP_metrics (Inr get) = (200, metrics_body get)
   \<and> metrics_body get = concat (map rendered (lines_of get))
   \<and> (uapi_text get \<longrightarrow>
        lines_of (metrics_body get) = map redacted (filter (\<lambda>l. l \<noteq> []) (lines_of get)) @ [[]]
        \<and> (\<forall>l \<in> set (lines_of (metrics_body get)).
              secret_key (key_of l) \<longrightarrow> l = key_of l @ ''=REDACTED''))"
proof (intro conjI ballI impI)
  show "ServeHTTP_metrics (Inr get) = (200, metrics_body get)"
    by (simp add: ServeHTTP_metrics_def)
  show "metrics_body get = concat (map rendered (lines_of get))"
    by (rule metrics_body_rendered)
  assume u: "uapi_text get"
  show "lines_of (metrics_body get) = map redacted (filter (\<lambda>l. l \<noteq> []) (lines_of get)) @ [[]]"
    by (rule metrics_body_lines[OF u])
  fix l
  assume l: "l \<in> set (lines_of (metrics_body get))" and s: "secret_key (key_of l)"
  from l have "l = [] \<or> (\<exists>l0. l = redacted l0)"
    by (auto simp: metrics_body_lines[OF u])
  with s obtain l0 where l0: "l = redacted l0"
    by (auto simp: key_of_Nil not_secret_Nil)
  with s have "secret_key (key_of l0)" by (simp add: key_of_redacted)
  then show "l = key_of l @ ''=REDACTED''"
    using l0 by (simp add: key_of_redacted) (simp add: redacted_def)
qed

theorem metrics_redaction_witness:
  "uapi_text ''private_key=abcd\<newline>listen_port=3\<newline>public_key=ff\<newline>preshared_key=00\<newline>''
   \<and> lines_of (metrics_body ''private_key=abcd\<newline>listen_port=3\<newline>public_key=ff\<newline>preshared_key=00\<newline>'')
     = [''private_key=REDACTED'', ''listen_port=3'', ''public_key=ff'', ''preshared_key=REDACTED'', []]"
proof -
  let ?g = "''private_key=abcd\<newline>listen_port=3\<newline>public_key=ff\<newline>preshared_key=00\<newline>''"
  have u: "uapi_text ?g"
    by code_simp
  have r: "map redacted (filter (\<lambda>l. l \<noteq> []) (lines_of ?g)) @ [[]]
        = [''private_key=REDACTED'', ''listen_port=3'', ''public_key=ff'', ''preshared_key=REDACTED'', []]"
    by code_simp
  from metrics_redaction[of ?g] u have
    "lines_of (metrics_body ?g) = map redacted (filter (\<lambda>l. l \<noteq> []) (lines_of ?g)) @ [[]]"
    by blast
  with u r show ?thesis by (simp only: simp_thms)
qed

section \<open>String values\<close>









section \<open>Errors of the parser\<close>


lemma bindE_Inr_iff: "bindE r f = Inr y \<longleftrightarrow> (\<exists>x. r = Inr x \<and> f x = Inr y)"
  by (cases r) (auto simp: bindE_def)

lemma bindE_simps: "bindE (Inl e) f = Inl e" "bindE (Inr x) f = f x"
  by (simp_all add: bindE_def)



lemma lib_call_Inr: "lib_call (Inr x) = Inr x"
  by (simp add: lib_call_def)



























section \<open>The sample documents, evaluated\<close>

lemmas sample_defs = sample_lib_def sample_Int_def sample_Uint64_def plain_decimal_def digit_value_def sample_key_def
  sample_interface_def sample_peer_def sample_file_def lib_call_def

lemmas ini_defs = GetKey_def Key_def SectionsByName_def ToLower_def lower_char_def

lemmas value_defs = parseString_def HasPrefix_def TrimSpace_def space_runes_def bindE_simps
  optional_Int_def optional_Bool_def

lemma EncodeToString_zero: "EncodeToString (replicate 32 0) = zero_key_hex"
  by code_simp

lemma sample_privkey:
  "parseBase64KeyToHex sample_lib (sample_interface @ x) ''PrivateKey'' = Inr zero_key_hex"
  by (simp add: parseBase64KeyToHex_def encodeBase64ToHex_def value_defs sample_defs ini_defs
        EncodeToString_zero)

lemma sample_address:
  "parseCIDRNetIP sample_lib (sample_interface @ x) ''Address'' = Inr [Addr ''10.5.0.2'']"
  by (simp add: parseCIDRNetIP_def value_defs sample_defs ini_defs)

lemma sample_dns:
  "parseNetIP sample_lib (sample_interface @ x) ''DNS'' = Inr [Addr ''1.1.1.1'']"
  by (simp add: parseNetIP_def value_defs sample_defs ini_defs)

lemma sample_Interface_section:
  "SectionsByName (sample_file x []) ''Interface'' = Some [sample_interface @ x]"
  by (simp add: SectionsByName_def sample_file_def ToLower_def lower_char_def)



lemma ParseInterface_ListenPort_stored:
  assumes "SectionsByName cfg ''Interface'' = Some [sec]"
      and "GetKey sec ''ListenPort'' = Some v"
      and "key_Int lib v = Inr n"
      and "ParseInterface lib cfg device = Inr device'"
  shows "DeviceConfig.ListenPort device' = Some n"
proof -
  have o: "optional_Int lib sec ''ListenPort'' = Inr (Some n)"
    using assms(2,3) by (simp add: optional_Int_def lib_call_def)
  from assms(4) show ?thesis
    unfolding ParseInterface_def Let_def assms(1)
    apply (simp only: option.case list.case)
    apply (auto simp: bindE_Inr_iff o split: option.splits if_splits)
    done
qed

text \<open>
  Claim C7 fails on the code: \<^verbatim>\<open>ParseInterface\<close> reads \<^verbatim>\<open>ListenPort\<close> with
  \<^verbatim>\<open>sectionKey.Int()\<close> and stores whatever integer it reads, so 70000 and -1 are
  accepted, while \<^verbatim>\<open>parsePort\<close> of the same module rejects both.
\<close>

theorem ParseInterface_ListenPort_unchecked:
  "ParseInterface sample_lib (sample_file [(''listenport'', ''70000'')] []) new_DeviceConfig
     = Inr (new_DeviceConfig\<lparr>SecretKey := zero_key_hex, Endpoint := [Addr ''10.5.0.2''],
              DeviceConfig.DNS := [Addr ''1.1.1.1''], DeviceConfig.ListenPort := Some 70000,
              BlockedDomains := [[]], CheckAliveInterval := 5\<rparr>)
   \<and> ParseInterface sample_lib (sample_file [(''listenport'', ''-1'')] []) new_DeviceConfig
     = Inr (new_DeviceConfig\<lparr>SecretKey := zero_key_hex, Endpoint := [Addr ''10.5.0.2''],
              DeviceConfig.DNS := [Addr ''1.1.1.1''], DeviceConfig.ListenPort := Some (- 1),
              BlockedDomains := [[]], CheckAliveInterval := 5\<rparr>)
   \<and> parsePort sample_lib [(''listenport'', ''70000'')] ''ListenPort''
     = Inl (New ''port should be >= 0 and < 65536'')
   \<and> parsePort sample_lib [(''listenport'', ''-1'')] ''ListenPort''
     = Inl (New ''port should be >= 0 and < 65536'')"
proof (intro conjI)
  show "ParseInterface sample_lib (sample_file [(''listenport'', ''70000'')] []) new_DeviceConfig
     = Inr (new_DeviceConfig\<lparr>SecretKey := zero_key_hex, Endpoint := [Addr ''10.5.0.2''],
              DeviceConfig.DNS := [Addr ''1.1.1.1''], DeviceConfig.ListenPort := Some 70000,
              BlockedDomains := [[]], CheckAliveInterval := 5\<rparr>)"
    unfolding ParseInterface_def sample_Interface_section
    apply (simp only: option.case list.case sample_privkey sample_address sample_dns bindE_simps Let_def)
    apply (simp add: parseNetIP_def parseStrings_def value_defs
        ParseASecConfig_def asec_int_field_def asec_header_field_def asec_string_field_def
        asec_itime_field_def ValidateASecConfig_def sample_defs ini_defs new_DeviceConfig_def)
    done
  show "ParseInterface sample_lib (sample_file [(''listenport'', ''-1'')] []) new_DeviceConfig
     = Inr (new_DeviceConfig\<lparr>SecretKey := zero_key_hex, Endpoint := [Addr ''10.5.0.2''],
              DeviceConfig.DNS := [Addr ''1.1.1.1''], DeviceConfig.ListenPort := Some (- 1),
              BlockedDomains := [[]], CheckAliveInterval := 5\<rparr>)"
    unfolding ParseInterface_def sample_Interface_section
    apply (simp only: option.case list.case sample_privkey sample_address sample_dns bindE_simps Let_def)
    apply (simp add: parseNetIP_def parseStrings_def value_defs
        ParseASecConfig_def asec_int_field_def asec_header_field_def asec_string_field_def
        asec_itime_field_def ValidateASecConfig_def sample_defs ini_defs new_DeviceConfig_def)
    done
  show "parsePort sample_lib [(''listenport'', ''70000'')] ''ListenPort''
     = Inl (New ''port should be >= 0 and < 65536'')"
    by (simp add: parsePort_def sample_defs ini_defs)
  show "parsePort sample_lib [(''listenport'', ''-1'')] ''ListenPort''
     = Inl (New ''port should be >= 0 and < 65536'')"
    by (simp add: parsePort_def sample_defs ini_defs)
qed

section \<open>Routines\<close>

lemma parseSocks5Config_Inr: "parseSocks5Config lib sec = Inr r \<Longrightarrow> \<exists>c. r = Socks5 c"
  by (auto simp: parseSocks5Config_def split: sum.splits)

lemma parseHTTPConfig_Inr: "parseHTTPConfig lib sec = Inr r \<Longrightarrow> \<exists>c. r = HTTP c"
  by (auto simp: parseHTTPConfig_def split: sum.splits)

lemma parseRoutines_loop_Socks5:
  "parseRoutines_loop (parseSocks5Config lib) secs acc = Inr out \<Longrightarrow>
   \<exists>ss. out = acc @ map Socks5 ss \<and> length ss = length secs"
proof (induction secs arbitrary: acc)
  case Nil
  then show ?case by simp
next
  case (Cons sec rest)
  from Cons.prems obtain c where c: "parseSocks5Config lib sec = Inr (Socks5 c)"
    and r: "parseRoutines_loop (parseSocks5Config lib) rest (acc @ [Socks5 c]) = Inr out"
    by (auto split: sum.splits dest: parseSocks5Config_Inr)
  from Cons.IH[OF r] obtain ss where "out = (acc @ [Socks5 c]) @ map Socks5 ss"
    and "length ss = length rest" by blast
  then have "out = acc @ map Socks5 (c # ss) \<and> length (c # ss) = length (sec # rest)"
    by simp
  then show ?case by blast
qed

lemma parseRoutines_loop_HTTP:
  "parseRoutines_loop (parseHTTPConfig lib) secs acc = Inr out \<Longrightarrow>
   \<exists>hs. out = acc @ map HTTP hs \<and> length hs = length secs"
proof (induction secs arbitrary: acc)
  case Nil
  then show ?case by simp
next
  case (Cons sec rest)
  from Cons.prems obtain c where c: "parseHTTPConfig lib sec = Inr (HTTP c)"
    and r: "parseRoutines_loop (parseHTTPConfig lib) rest (acc @ [HTTP c]) = Inr out"
    by (auto split: sum.splits dest: parseHTTPConfig_Inr)
  from Cons.IH[OF r] obtain hs where "out = (acc @ [HTTP c]) @ map HTTP hs"
    and "length hs = length rest" by blast
  then have "out = acc @ map HTTP (c # hs) \<and> length (c # hs) = length (sec # rest)"
    by simp
  then show ?case by blast
qed

lemma SectionsByName_named:
  "SectionsByName cfg name = (if sections_named cfg name = [] then None
                              else Some (sections_named cfg name))"
  by (simp add: SectionsByName_def sections_named_def Let_def)

lemma parseRoutinesConfig_Socks5:
  assumes "parseRoutinesConfig acc cfg name (parseSocks5Config lib) = Inr out"
  shows "\<exists>ss. out = acc @ map Socks5 ss \<and> length ss = length (sections_named cfg name)"
proof (cases "sections_named cfg name = []")
  case True
  with assms have "out = acc"
    by (simp add: parseRoutinesConfig_def SectionsByName_named)
  with True show ?thesis by simp
next
  case False
  with assms show ?thesis
    by (simp add: parseRoutinesConfig_def SectionsByName_named parseRoutines_loop_Socks5)
qed

lemma parseRoutinesConfig_HTTP:
  assumes "parseRoutinesConfig acc cfg name (parseHTTPConfig lib) = Inr out"
  shows "\<exists>hs. out = acc @ map HTTP hs \<and> length hs = length (sections_named cfg name)"
proof (cases "sections_named cfg name = []")
  case True
  with assms have "out = acc"
    by (simp add: parseRoutinesConfig_def SectionsByName_named)
  with True show ?thesis by simp
next
  case False
  with assms show ?thesis
    by (simp add: parseRoutinesConfig_def SectionsByName_named parseRoutines_loop_HTTP)
qed

lemma Parse_Routines_steps:
  assumes "Parse lib cfg = Inr conf"
  shows "\<exists>rs. parseRoutinesConfig [] cfg ''Socks5'' (parseSocks5Config lib) = Inr rs
            \<and> parseRoutinesConfig rs cfg ''http'' (parseHTTPConfig lib) = Inr (Routines conf)"
  using assms unfolding Parse_def Let_def
  by (auto simp: bindE_Inr_iff)

lemma SectionsByName_without_forwarders:
  "\<not> forwarder_section (ToLower name) \<Longrightarrow>
   SectionsByName (without_forwarders cfg) name = SectionsByName cfg name"
proof -
  assume n: "\<not> forwarder_section (ToLower name)"
  have "filter (\<lambda>(m, s). m = ToLower name)
          (filter (\<lambda>(m, s). \<not> forwarder_section m) (sections cfg))
        = filter (\<lambda>(m, s). m = ToLower name) (sections cfg)"
    using n by (induction "sections cfg" arbitrary: cfg) (auto intro: filter_cong)
  then show ?thesis
    by (simp add: SectionsByName_def without_forwarders_def)
qed

lemma section_names_kept:
  "\<not> forwarder_section (ToLower ''Interface'')" "\<not> forwarder_section (ToLower ''Peer'')"
  "\<not> forwarder_section (ToLower ''Socks5'')" "\<not> forwarder_section (ToLower ''http'')"
  by (simp_all add: forwarder_section_def ToLower_def lower_char_def)

lemma Parse_without_forwarders: "Parse lib (without_forwarders cfg) = Parse lib cfg"
proof -
  have r: "root (without_forwarders cfg) = root cfg"
    by (simp add: without_forwarders_def)
  have i: "\<And>d. ParseInterface lib (without_forwarders cfg) d = ParseInterface lib cfg d"
    by (simp add: ParseInterface_def SectionsByName_without_forwarders section_names_kept)
  have p: "\<And>ps. ParsePeers lib (without_forwarders cfg) ps = ParsePeers lib cfg ps"
    by (simp add: ParsePeers_def SectionsByName_without_forwarders section_names_kept)
  have s: "\<And>rs f. parseRoutinesConfig rs (without_forwarders cfg) ''Socks5'' f
                    = parseRoutinesConfig rs cfg ''Socks5'' f"
    by (simp add: parseRoutinesConfig_def SectionsByName_without_forwarders section_names_kept)
  have h: "\<And>rs f. parseRoutinesConfig rs (without_forwarders cfg) ''http'' f
                    = parseRoutinesConfig rs cfg ''http'' f"
    by (simp add: parseRoutinesConfig_def SectionsByName_without_forwarders section_names_kept)
  show ?thesis
  proof (cases "GetKey (root cfg) ''WGConfig''")
    case None
    then show ?thesis
      unfolding Parse_def Let_def r by (simp only: option.case bindE_simps i p s h)
  next
    case (Some wgConf)
    then show ?thesis
      unfolding Parse_def Let_def r by (simp only: option.case s h)
  qed
qed

text \<open>
  Claim C2, as the code has it. \<^verbatim>\<open>Parse\<close> does not read the sections
  \<^verbatim>\<open>[TCPClientTunnel]\<close>, \<^verbatim>\<open>[TCPServerTunnel]\<close> and \<^verbatim>\<open>[STDIOTunnel]\<close>: its result
  is the one it gives on the document without them. When it succeeds, the routines are one
  SOCKS5 entry for each \<^verbatim>\<open>[Socks5]\<close> section followed by one HTTP entry for each
  \<^verbatim>\<open>[http]\<close> section, and nothing else.
\<close>

theorem Parse_routines:
  "Parse lib (without_forwarders cfg) = Parse lib cfg
   \<and> (Parse lib cfg = Inr conf \<longrightarrow>
        (\<exists>ss hs. Routines conf = map Socks5 ss @ map HTTP hs
           \<and> length ss = length (sections_named cfg ''Socks5'')
           \<and> length hs = length (sections_named cfg ''http'')))"
proof (intro conjI impI)
  show "Parse lib (without_forwarders cfg) = Parse lib cfg"
    by (rule Parse_without_forwarders)
  assume a: "Parse lib cfg = Inr conf"
  from Parse_Routines_steps[OF a] obtain rs where
    s: "parseRoutinesConfig [] cfg ''Socks5'' (parseSocks5Config lib) = Inr rs" and
    h: "parseRoutinesConfig rs cfg ''http'' (parseHTTPConfig lib) = Inr (Routines conf)"
    by blast
  from parseRoutinesConfig_Socks5[OF s] obtain ss where
    ss: "rs = map Socks5 ss" "length ss = length (sections_named cfg ''Socks5'')" by auto
  from parseRoutinesConfig_HTTP[OF h] obtain hs where
    hs: "Routines conf = rs @ map HTTP hs" "length hs = length (sections_named cfg ''http'')"
    by auto
  from ss hs show "\<exists>ss hs. Routines conf = map Socks5 ss @ map HTTP hs
           \<and> length ss = length (sections_named cfg ''Socks5'')
           \<and> length hs = length (sections_named cfg ''http'')" by blast
qed

lemma sample_ParseInterface:
  "ParseInterface sample_lib (sample_file [] r) new_DeviceConfig
   = Inr (sample_device\<lparr>Peers := []\<rparr>)" if "\<forall>(n, s) \<in> set r. n \<noteq> ''interface''"
proof -
  have "filter (\<lambda>(n, s). n = ''interface'') r = []"
    using that by (auto simp: filter_empty_conv)
  then have s: "SectionsByName (sample_file [] r) ''Interface'' = Some [sample_interface @ []]"
    by (simp add: SectionsByName_def sample_file_def ToLower_def lower_char_def)
  show ?thesis
    unfolding ParseInterface_def s
    apply (simp only: option.case list.case sample_privkey sample_address sample_dns bindE_simps Let_def)
    apply (simp add: parseNetIP_def parseStrings_def value_defs
        ParseASecConfig_def asec_int_field_def asec_header_field_def asec_string_field_def
        asec_itime_field_def ValidateASecConfig_def sample_defs ini_defs new_DeviceConfig_def
        sample_device_def zero_key_hex_def)
    done
qed

lemma sample_parsePeer: "parsePeer sample_lib sample_peer = Inr sample_peer_config"
  by (simp add: parsePeer_def parseBase64KeyToHex_def encodeBase64ToHex_def EncodeToString_zero
        resolveIPPAndPort_def parseAllowedIPs_def value_defs sample_defs ini_defs
        sample_peer_config_def zero_key_hex_def)

lemma sample_ParsePeers:
  "ParsePeers sample_lib (sample_file [] r) [] = Inr [sample_peer_config]"
  if "\<forall>(n, s) \<in> set r. n \<noteq> ''peer''"
proof -
  have "filter (\<lambda>(n, s). n = ''peer'') r = []"
    using that by (auto simp: filter_empty_conv)
  then have s: "SectionsByName (sample_file [] r) ''Peer'' = Some [sample_peer]"
    by (simp add: SectionsByName_def sample_file_def ToLower_def lower_char_def)
  show ?thesis
    unfolding ParsePeers_def s by (simp add: sample_parsePeer)
qed

lemma sample_Parse_steps:
  assumes "\<forall>(n, s) \<in> set r. n \<noteq> ''interface'' \<and> n \<noteq> ''peer''"
  shows "Parse sample_lib (sample_file [] r) =
     bindE (parseRoutinesConfig [] (sample_file [] r) ''Socks5'' (parseSocks5Config sample_lib))
       (\<lambda>rs. bindE (parseRoutinesConfig rs (sample_file [] r) ''http'' (parseHTTPConfig sample_lib))
          (\<lambda>rs. Inr \<lparr>Device = sample_device, Routines = rs\<rparr>))"
proof -
  have i: "\<forall>(n, s) \<in> set r. n \<noteq> ''interface''" and p: "\<forall>(n, s) \<in> set r. n \<noteq> ''peer''"
    using assms by auto
  have w: "GetKey (root (sample_file [] r)) ''WGConfig'' = None"
    by (simp add: GetKey_def sample_file_def)
  have d: "Peers (sample_device\<lparr>Peers := []\<rparr>) = []"
          "sample_device\<lparr>Peers := [], Peers := [sample_peer_config]\<rparr> = sample_device"
    by (simp_all add: sample_device_def)
  show ?thesis
    unfolding Parse_def Let_def
    by (simp only: w option.case bindE_simps sample_ParseInterface[OF i] sample_ParsePeers[OF p] d)
qed

theorem Parse_tunnels_counterexample:
  "Parse sample_lib tunnels_file = Inr \<lparr>Device = sample_device, Routines = []\<rparr>
   \<and> length (sections_named tunnels_file ''TCPClientTunnel'') = 1
   \<and> length (sections_named tunnels_file ''TCPServerTunnel'') = 1
   \<and> length (sections_named tunnels_file ''STDIOTunnel'') = 1"
proof -
  have "Parse sample_lib tunnels_file = Inr \<lparr>Device = sample_device, Routines = []\<rparr>"
    unfolding tunnels_file_def
    by (subst sample_Parse_steps)
       (simp_all add: parseRoutinesConfig_def SectionsByName_def sample_file_def ToLower_def
          lower_char_def bindE_simps)
  then show ?thesis
    by (simp add: sections_named_def tunnels_file_def sample_file_def ToLower_def lower_char_def)
qed

theorem Parse_routines_witness:
  "Parse sample_lib proxies_file
     = Inr \<lparr>Device = sample_device,
            Routines = [Socks5 \<lparr>Socks5Config.BindAddress = ''127.0.0.1:1080'',
                                Socks5Config.Username = ''alice'',
                                Socks5Config.Password = ''hunter2''\<rparr>,
                        HTTP \<lparr>HTTPConfig.BindAddress = ''127.0.0.1:3128'',
                              HTTPConfig.Username = [], HTTPConfig.Password = []\<rparr>]\<rparr>
   \<and> (\<exists>ss hs. [Socks5 \<lparr>Socks5Config.BindAddress = ''127.0.0.1:1080'',
                           Socks5Config.Username = ''alice'',
                           Socks5Config.Password = ''hunter2''\<rparr>,
                  HTTP \<lparr>HTTPConfig.BindAddress = ''127.0.0.1:3128'',
                        HTTPConfig.Username = [], HTTPConfig.Password = []\<rparr>]
                 = map Socks5 ss @ map HTTP hs \<and> length ss = 1 \<and> length hs = 1)"
proof -
  have e: "Parse sample_lib proxies_file
     = Inr \<lparr>Device = sample_device,
            Routines = [Socks5 \<lparr>Socks5Config.BindAddress = ''127.0.0.1:1080'',
                                Socks5Config.Username = ''alice'',
                                Socks5Config.Password = ''hunter2''\<rparr>,
                        HTTP \<lparr>HTTPConfig.BindAddress = ''127.0.0.1:3128'',
                              HTTPConfig.Username = [], HTTPConfig.Password = []\<rparr>]\<rparr>"
    unfolding proxies_file_def
    by (subst sample_Parse_steps)
       (simp_all add: parseRoutinesConfig_def parseSocks5Config_def parseHTTPConfig_def
          or_empty_def value_defs sample_file_def sample_lib_def ini_defs TrimPrefix_def)
  have n: "length (sections_named proxies_file ''Socks5'') = 1"
          "length (sections_named proxies_file ''http'') = 1"
    by (simp_all add: sections_named_def proxies_file_def sample_file_def ToLower_def lower_char_def)
  from Parse_routines[of sample_lib proxies_file
         "\<lparr>Device = sample_device,
           Routines = [Socks5 \<lparr>Socks5Config.BindAddress = ''127.0.0.1:1080'',
                               Socks5Config.Username = ''alice'',
                               Socks5Config.Password = ''hunter2''\<rparr>,
                       HTTP \<lparr>HTTPConfig.BindAddress = ''127.0.0.1:3128'',
                             HTTPConfig.Username = [], HTTPConfig.Password = []\<rparr>]\<rparr>"]
       e n
  show ?thesis
    by simp
qed

section \<open>The request, line by line\<close>

lemma unlines_append: "unlines (a @ b) = unlines a @ unlines b"
  by (simp add: unlines_def)

lemma unlines_Nil: "unlines [] = []"
  by (simp add: unlines_def)

lemma unlines_Cons: "unlines (l # ls) = l @ ''\<newline>'' @ unlines ls"
  by (simp add: unlines_def)

lemma digit_char_not_newline: "digit_char d \<noteq> CHR 0x0A" "CHR 0x0A \<noteq> digit_char d"
  by (simp_all add: digit_char_def)

lemma show_nat_no_newline: "no_newline (show_nat n)"
proof (induction n rule: show_nat.induct)
  case (1 n)
  show ?case
  proof (cases "n < 10")
    case True
    then show ?thesis
      by (subst show_nat.simps) (simp add: no_newline_def digit_char_not_newline)
  next
    case False
    with 1 have "no_newline (show_nat (n div 10))" by simp
    with False show ?thesis
      by (subst show_nat.simps) (simp add: no_newline_def digit_char_not_newline)
  qed
qed

lemma show_int_no_newline: "no_newline (show_int i)"
  using show_nat_no_newline[of "nat i"] show_nat_no_newline[of "nat (- i)"]
  by (simp add: show_int_def no_newline_def)

lemma no_newline_append: "no_newline (a @ b) \<longleftrightarrow> no_newline a \<and> no_newline b"
  by (auto simp: no_newline_def)

lemma write_optional_eq: "write_optional buf k p = buf @ unlines (opt_line k p)"
  by (cases p) (simp_all add: write_optional_def opt_line_def WriteString_def unlines_def)

lemma aSecBuilder_eq: "aSecBuilder a = unlines (asec_lines a)"
  by (cases "itime a")
     (simp_all add: aSecBuilder_def asec_lines_def Let_def WriteString_def write_optional_eq
        unlines_append unlines_Cons unlines_Nil opt_line_def)

lemma write_allowed_ips_eq:
  "write_allowed_ips request ips
   = request @ unlines (map (\<lambda>ip. ''allowed_ip='' @ Prefix_String ip) ips)"
  by (induction ips arbitrary: request) (simp_all add: WriteString_def unlines_def)

lemma write_peer_eq: "write_peer request p = request @ unlines (peer_lines p)"
  by (simp add: write_peer_def peer_lines_def peer_head_lines_def allowed_ip_lines_def Let_def WriteString_def
        write_optional_eq write_allowed_ips_eq unlines_append unlines_Cons unlines_Nil)

lemma write_peers_eq:
  "write_peers request ps = request @ unlines (concat (map peer_lines ps))"
  by (induction ps arbitrary: request) (simp_all add: write_peer_eq unlines_append unlines_Nil)

lemma ipc_request_eq:
  "ipc_request conf isUpdate
   = unlines (device_lines conf isUpdate @ concat (map peer_lines (Peers conf)))"
  by (cases "DeviceConfig.ListenPort conf"; cases "ASecConfig conf")
     (simp_all add: ipc_request_def device_lines_def Let_def WriteString_def write_peers_eq
        aSecBuilder_eq unlines_append unlines_Cons unlines_Nil opt_line_def)

lemma opt_line_no_newline:
  "no_newline k \<Longrightarrow> no_newline_opt p \<Longrightarrow> list_all no_newline (opt_line k p)"
  by (cases p) (simp_all add: opt_line_def no_newline_opt_def no_newline_def)

lemma literal_no_newline:
  "no_newline ''i1''" "no_newline ''i2''" "no_newline ''i3''" "no_newline ''i4''"
  "no_newline ''i5''" "no_newline ''j1''" "no_newline ''j2''" "no_newline ''j3''"
  "no_newline ''itime''" "no_newline ''listen_port''" "no_newline ''endpoint''"
  by (simp_all add: no_newline_def)

lemma no_newline_opt_show_int: "no_newline_opt (map_option show_int p)"
  by (cases p) (simp_all add: no_newline_opt_def show_int_no_newline)

lemma show_no_newline:
  "CHR 0x0A \<notin> set (show_int i)" "CHR 0x0A \<notin> set (show_nat n)"
  using show_int_no_newline[of i] show_nat_no_newline[of n] by (simp_all add: no_newline_def)

lemma asec_lines_no_newline: "wf_asec a \<Longrightarrow> list_all no_newline (asec_lines a)"
  by (simp add: asec_lines_def wf_asec_def opt_line_no_newline literal_no_newline
        no_newline_opt_show_int)
     (simp add: no_newline_def show_no_newline)

lemma allowed_ip_lines_no_newline:
  "list_all (\<lambda>ip. no_newline (Prefix_String ip)) (AllowedIPs p)
   \<Longrightarrow> list_all no_newline (allowed_ip_lines p)"
  by (auto simp: allowed_ip_lines_def list_all_iff no_newline_def)

lemma peer_lines_no_newline: "wf_peer p \<Longrightarrow> list_all no_newline (peer_lines p)"
  using show_int_no_newline[of "KeepAlive p"]
  by (simp add: peer_lines_def peer_head_lines_def wf_peer_def opt_line_no_newline literal_no_newline
        allowed_ip_lines_no_newline)
     (simp add: no_newline_def)

lemma peer_lines_member_no_newline:
  "wf_peer p \<Longrightarrow> x \<in> set (peer_lines p) \<Longrightarrow> no_newline x"
  using peer_lines_no_newline[of p] by (simp add: list_all_iff)

lemma device_lines_no_newline:
  "wf_conf conf \<Longrightarrow> list_all no_newline (device_lines conf isUpdate)"
  by (cases "ASecConfig conf")
     (simp_all add: device_lines_def wf_conf_def opt_line_no_newline literal_no_newline
        no_newline_opt_show_int asec_lines_no_newline, simp_all add: no_newline_def)

lemma request_lines:
  assumes "wf_conf conf"
  shows "lines_of (ipc_request conf isUpdate)
         = device_lines conf isUpdate @ concat (map peer_lines (Peers conf)) @ [[]]"
proof -
  have "list_all no_newline (concat (map peer_lines (Peers conf)))"
    using assms by (auto simp: wf_conf_def list_all_iff dest: peer_lines_member_no_newline)
  with device_lines_no_newline[OF assms, of isUpdate]
  have "list_all no_newline (device_lines conf isUpdate @ concat (map peer_lines (Peers conf)))"
    by simp
  from lines_of_unlines[OF this] show ?thesis
    by (simp add: ipc_request_eq)
qed

lemma key_of_opt_line:
  "CHR ''='' \<notin> set k \<Longrightarrow> map key_of (opt_line k p) = present k p"
  by (cases p) (simp_all add: opt_line_def present_def key_of_append)

lemma present_map_option: "present k (map_option f p) = present k p"
  by (cases p) (simp_all add: present_def)

lemma asec_keys_eq: "map key_of (asec_lines a) = asec_keys a"
  by (simp add: asec_lines_def asec_keys_def key_of_opt_line present_map_option)
     (simp add: key_of_def)

lemma allowed_ip_keys:
  "map key_of (allowed_ip_lines p)
   = replicate (if AllowedIPs p = [] then 2 else length (AllowedIPs p)) ''allowed_ip''"
  by (simp add: allowed_ip_lines_def key_of_def map_replicate_const comp_def numeral_2_eq_2)

lemma peer_keys_eq: "map key_of (peer_lines p) = peer_keys p"
  by (simp add: peer_lines_def peer_head_lines_def peer_keys_def key_of_opt_line allowed_ip_keys)
     (simp add: key_of_def)

lemma device_keys_eq: "map key_of (device_lines conf isUpdate) = device_keys conf isUpdate"
  by (cases "ASecConfig conf")
     (simp_all add: device_lines_def device_keys_def key_of_opt_line present_map_option
        asec_keys_eq, simp_all add: key_of_def)

lemma request_keys:
  assumes "wf_conf conf"
  shows "map key_of (lines_of (ipc_request conf isUpdate))
         = device_keys conf isUpdate @ concat (map peer_keys (Peers conf)) @ [[]]"
  by (simp add: request_lines[OF assms] device_keys_eq map_concat comp_def peer_keys_eq)
     (simp add: key_of_def)

lemma in_present_iff: "x \<in> set (present k p) \<longleftrightarrow> x = k \<and> p \<noteq> None"
  by (cases p) (auto simp: present_def)

lemma jc_in_asec_keys: "''jc'' \<in> set (asec_keys a)"
  by (simp add: asec_keys_def)

lemma asec_keys_other:
  "''listen_port'' \<notin> set (asec_keys a)" "''replace_allowed_ips'' \<notin> set (asec_keys a)"
  "''allowed_ip'' \<notin> set (asec_keys a)"
  by (simp_all add: asec_keys_def in_present_iff)

lemma peer_keys_other:
  "''listen_port'' \<notin> set (peer_keys p)" "''jc'' \<notin> set (peer_keys p)"
  by (simp_all add: peer_keys_def in_present_iff)

lemma device_keys_listen_port:
  "''listen_port'' \<in> set (device_keys conf isUpdate) \<longleftrightarrow> DeviceConfig.ListenPort conf \<noteq> None"
proof (cases "ASecConfig conf")
  case None
  then show ?thesis
    by (cases "DeviceConfig.ListenPort conf") (simp_all add: device_keys_def present_def)
next
  case (Some a)
  with asec_keys_other(1)[of a] show ?thesis
    by (cases "DeviceConfig.ListenPort conf") (simp_all add: device_keys_def present_def)
qed

lemma device_keys_jc:
  "''jc'' \<in> set (device_keys conf isUpdate) \<longleftrightarrow> ASecConfig conf \<noteq> None"
  by (cases "ASecConfig conf"; cases "DeviceConfig.ListenPort conf")
     (simp_all add: device_keys_def present_def jc_in_asec_keys)


lemma key_of_literal:
  "key_of (''public_key='' @ v) = ''public_key''"
  "key_of (''persistent_keepalive_interval='' @ v) = ''persistent_keepalive_interval''"
  "key_of (''preshared_key='' @ v) = ''preshared_key''"
  "key_of (''endpoint='' @ v) = ''endpoint''"
  "key_of (''allowed_ip='' @ v) = ''allowed_ip''"
  "key_of ''allowed_ip=0.0.0.0/0'' = ''allowed_ip''"
  "key_of ''allowed_ip=::/0'' = ''allowed_ip''"
  by (simp_all add: key_of_def)

lemma allowed_ip_lines_key: "l \<in> set (allowed_ip_lines p) \<Longrightarrow> key_of l = ''allowed_ip''"
  by (auto simp: allowed_ip_lines_def key_of_def split: if_splits)

lemma replace_allowed_ips_line:
  assumes "l \<in> set (peer_lines p)" and "key_of l = ''replace_allowed_ips''"
  shows "l = ''replace_allowed_ips=true''"
proof -
  from assms(1) consider
      "l = ''public_key='' @ PublicKey p"
    | "l = ''persistent_keepalive_interval='' @ show_int (KeepAlive p)"
    | "l = ''preshared_key='' @ PreSharedKey p"
    | "l \<in> set (opt_line ''endpoint'' (PeerConfig.Endpoint p))"
    | "l = ''replace_allowed_ips=true''"
    | "l \<in> set (allowed_ip_lines p)"
    unfolding peer_lines_def peer_head_lines_def by (simp only: set_append set_simps Un_iff insert_iff empty_iff) blast
  then show ?thesis
  proof cases
    case 1
    with assms(2) show ?thesis by (simp only: key_of_literal) simp
  next
    case 2
    with assms(2) show ?thesis by (simp only: key_of_literal) simp
  next
    case 3
    with assms(2) show ?thesis by (simp only: key_of_literal) simp
  next
    case 4
    then obtain e where "l = ''endpoint='' @ e"
      by (cases "PeerConfig.Endpoint p") (simp_all add: opt_line_def)
    with assms(2) show ?thesis by (simp only: key_of_literal) simp
  next
    case 5
    then show ?thesis .
  next
    case 6
    from allowed_ip_lines_key[OF this] assms(2) show ?thesis by simp
  qed
qed


lemma device_lines_not_replace_allowed_ips:
  "l \<in> set (device_lines conf isUpdate) \<Longrightarrow> key_of l \<noteq> ''replace_allowed_ips''"
proof -
  assume "l \<in> set (device_lines conf isUpdate)"
  then have "key_of l \<in> set (device_keys conf isUpdate)"
    unfolding device_keys_eq[symmetric] by simp
  moreover have "''replace_allowed_ips'' \<notin> set (device_keys conf isUpdate)"
  proof (cases "ASecConfig conf")
    case None
    then show ?thesis
      by (simp add: device_keys_def in_present_iff)
  next
    case (Some a)
    with asec_keys_other(2)[of a] show ?thesis
      by (simp add: device_keys_def in_present_iff)
  qed
  ultimately show ?thesis by auto
qed


text \<open>
  Claim C1, as the code has it. For every device configuration the request is the text
  of the lines below, each followed by a line break; \<^verbatim>\<open>CreateIPCRequest\<close> writes every
  text of the configuration as it is, so a text that holds a line break adds lines.
  For every device configuration none of whose texts (the secret key, \<^verbatim>\<open>I1\<close> to
  \<^verbatim>\<open>I5\<close>, \<^verbatim>\<open>J1\<close> to \<^verbatim>\<open>J3\<close>, and each peer's keys, endpoint and prefixes) holds a
  line break, the lines of the request are, in this order: the \<^verbatim>\<open>private_key\<close> line;
  the \<^verbatim>\<open>listen_port\<close> line if the port is set; if the obfuscation profile is set, the
  lines of \<^verbatim>\<open>jc\<close>, \<^verbatim>\<open>jmin\<close>, \<^verbatim>\<open>jmax\<close>, \<^verbatim>\<open>s1\<close>, \<^verbatim>\<open>s2\<close>, \<^verbatim>\<open>h1\<close> to \<^verbatim>\<open>h4\<close> and
  then those of \<^verbatim>\<open>i1\<close> to \<^verbatim>\<open>i5\<close>, \<^verbatim>\<open>j1\<close> to \<^verbatim>\<open>j3\<close>, \<^verbatim>\<open>itime\<close> that are
  present; \<^verbatim>\<open>replace_peers=true\<close> on an update; then for each peer \<^verbatim>\<open>public_key\<close>,
  \<^verbatim>\<open>persistent_keepalive_interval\<close>, \<^verbatim>\<open>preshared_key\<close>, the optional \<^verbatim>\<open>endpoint\<close>,
  \<^verbatim>\<open>replace_allowed_ips=true\<close> and at least one \<^verbatim>\<open>allowed_ip\<close> line; and last the
  empty piece after the final line break. So the request begins with the private key, it
  holds a \<^verbatim>\<open>listen_port\<close> line exactly when the port is set and a \<^verbatim>\<open>jc\<close> line exactly
  when the profile is set, and every \<^verbatim>\<open>replace_allowed_ips\<close> line has the value
  \<^verbatim>\<open>true\<close>.
\<close>

theorem CreateIPCRequest_layout:
  "IpcRequest (CreateIPCRequest conf isUpdate)
     = unlines (device_lines conf isUpdate @ concat (map peer_lines (Peers conf)))
   \<and> (wf_conf conf \<longrightarrow>
        lines_of (IpcRequest (CreateIPCRequest conf isUpdate))
          = device_lines conf isUpdate @ concat (map peer_lines (Peers conf)) @ [[]]
        \<and> map key_of (lines_of (IpcRequest (CreateIPCRequest conf isUpdate)))
          = device_keys conf isUpdate @ concat (map peer_keys (Peers conf)) @ [[]]
        \<and> (\<exists>rest. lines_of (IpcRequest (CreateIPCRequest conf isUpdate))
                     = (''private_key='' @ SecretKey conf) # rest)
        \<and> (''listen_port''
              \<in> set (map key_of (lines_of (IpcRequest (CreateIPCRequest conf isUpdate))))
            \<longleftrightarrow> DeviceConfig.ListenPort conf \<noteq> None)
        \<and> (''jc'' \<in> set (map key_of (lines_of (IpcRequest (CreateIPCRequest conf isUpdate))))
            \<longleftrightarrow> ASecConfig conf \<noteq> None)
        \<and> (\<forall>l \<in> set (lines_of (IpcRequest (CreateIPCRequest conf isUpdate))).
              key_of l = ''replace_allowed_ips'' \<longrightarrow> l = ''replace_allowed_ips=true''))"
proof (intro conjI impI)
  let ?req = "IpcRequest (CreateIPCRequest conf isUpdate)"
  let ?ls = "device_lines conf isUpdate @ concat (map peer_lines (Peers conf))"
  show "?req = unlines ?ls"
    by (simp add: CreateIPCRequest_def ipc_request_eq)
  assume wf: "wf_conf conf"
  have l: "lines_of ?req = ?ls @ [[]]"
    using request_lines[OF wf, of isUpdate] by (simp add: CreateIPCRequest_def)
  then show "lines_of ?req
             = device_lines conf isUpdate @ concat (map peer_lines (Peers conf)) @ [[]]"
    by simp
  have e: "key_of [] = []"
    by (simp add: key_of_def)
  show k: "map key_of (lines_of ?req)
           = device_keys conf isUpdate @ concat (map peer_keys (Peers conf)) @ [[]]"
    unfolding l by (simp add: device_keys_eq map_concat comp_def peer_keys_eq e)
  have peers: "\<And>k. k \<in> set (concat (map peer_keys (Peers conf))) \<Longrightarrow>
                 k \<noteq> ''listen_port'' \<and> k \<noteq> ''jc''"
    using peer_keys_other by auto
  show "\<exists>rest. lines_of ?req = (''private_key='' @ SecretKey conf) # rest"
    unfolding l by (simp add: device_lines_def)
  show "''listen_port'' \<in> set (map key_of (lines_of ?req))
        \<longleftrightarrow> DeviceConfig.ListenPort conf \<noteq> None"
    unfolding k using peers device_keys_listen_port[of conf isUpdate] by auto
  show "''jc'' \<in> set (map key_of (lines_of ?req)) \<longleftrightarrow> ASecConfig conf \<noteq> None"
    unfolding k using peers device_keys_jc[of conf isUpdate] by auto
  show "\<forall>l \<in> set (lines_of ?req).
          key_of l = ''replace_allowed_ips'' \<longrightarrow> l = ''replace_allowed_ips=true''"
  proof (intro ballI impI)
    fix x
    assume x: "x \<in> set (lines_of ?req)" and kx: "key_of x = ''replace_allowed_ips''"
    from kx e have "x \<noteq> []"
      by auto
    moreover from kx have "x \<notin> set (device_lines conf isUpdate)"
      using device_lines_not_replace_allowed_ips by blast
    ultimately obtain p where "x \<in> set (peer_lines p)"
      using x unfolding l by auto
    from replace_allowed_ips_line[OF this kx] show "x = ''replace_allowed_ips=true''" .
  qed
qed

lemma Prefix_String_no_newline: "no_newline s \<Longrightarrow> no_newline (Prefix_String (Prefix (Addr s) n))"
  using show_nat_no_newline[of n] by (simp add: no_newline_def)

lemma wf_two_peers_device: "wf_conf two_peers_device"
  by (simp add: wf_conf_def wf_peer_def wf_asec_def two_peers_device_def sample_device_def
        sample_peer_config_def zero_ASecConfig_def zero_key_hex_def no_newline_opt_def
        Prefix_String_no_newline)
     (simp add: no_newline_def show_no_newline)

theorem CreateIPCRequest_layout_witness:
  "wf_conf two_peers_device
   \<and> map key_of (lines_of (IpcRequest (CreateIPCRequest two_peers_device True)))
     = [''private_key'', ''listen_port'', ''jc'', ''jmin'', ''jmax'', ''s1'', ''s2'', ''h1'',
        ''h2'', ''h3'', ''h4'', ''i1'', ''itime'', ''replace_peers'',
        ''public_key'', ''persistent_keepalive_interval'', ''preshared_key'', ''endpoint'',
        ''replace_allowed_ips'', ''allowed_ip'', ''allowed_ip'',
        ''public_key'', ''persistent_keepalive_interval'', ''preshared_key'',
        ''replace_allowed_ips'', ''allowed_ip'', ''allowed_ip'', []]"
proof -
  have e: "device_keys two_peers_device True @ concat (map peer_keys (Peers two_peers_device))
     = [''private_key'', ''listen_port'', ''jc'', ''jmin'', ''jmax'', ''s1'', ''s2'', ''h1'',
        ''h2'', ''h3'', ''h4'', ''i1'', ''itime'', ''replace_peers'',
        ''public_key'', ''persistent_keepalive_interval'', ''preshared_key'', ''endpoint'',
        ''replace_allowed_ips'', ''allowed_ip'', ''allowed_ip'',
        ''public_key'', ''persistent_keepalive_interval'', ''preshared_key'',
        ''replace_allowed_ips'', ''allowed_ip'', ''allowed_ip'']"
    by (simp add: device_keys_def peer_keys_def asec_keys_def present_def two_peers_device_def
          sample_device_def sample_peer_config_def zero_ASecConfig_def numeral_2_eq_2)
  from CreateIPCRequest_layout[of two_peers_device True] wf_two_peers_device
  have "map key_of (lines_of (IpcRequest (CreateIPCRequest two_peers_device True)))
        = device_keys two_peers_device True
          @ concat (map peer_keys (Peers two_peers_device)) @ [[]]"
    by blast
  with e wf_two_peers_device show ?thesis
    by simp
qed

lemma two_line_i1_request:
  "IpcRequest (CreateIPCRequest two_line_i1_device False)
   = ''private_key=0000000000000000000000000000000000000000000000000000000000000000\<newline>''
     @ ''jc=0\<newline>jmin=0\<newline>jmax=0\<newline>s1=0\<newline>s2=0\<newline>''
     @ ''h1=0\<newline>h2=0\<newline>h3=0\<newline>h4=0\<newline>''
     @ ''i1=<b 0x01>\<newline>listen_port=1\<newline>''"
proof -
  have z: "show_int 0 = ''0''" "show_nat 0 = ''0''"
    by (simp_all add: show_int_def show_nat.simps digit_char_def)
  show ?thesis
    by (simp add: CreateIPCRequest_def ipc_request_eq device_lines_def asec_lines_def
          opt_line_def unlines_def two_line_i1_device_def new_DeviceConfig_def
          zero_ASecConfig_def zero_key_hex_def z)
qed

text \<open>
  Claim C1 fails where a text of the configuration holds a line break. The document
  whose \<^verbatim>\<open>I1\<close> value runs over two lines has no \<^verbatim>\<open>ListenPort\<close> key, and
  \<^verbatim>\<open>ParseInterface\<close> builds from it a device without a listen port; the request of this
  device holds the line \<^verbatim>\<open>listen_port=1\<close>.
\<close>

theorem CreateIPCRequest_layout_counterexample:
  "ParseInterface sample_lib two_line_i1_file new_DeviceConfig = Inr two_line_i1_device
   \<and> DeviceConfig.ListenPort two_line_i1_device = None
   \<and> lines_of (IpcRequest (CreateIPCRequest two_line_i1_device False))
     = [''private_key=0000000000000000000000000000000000000000000000000000000000000000'',
        ''jc=0'', ''jmin=0'', ''jmax=0'', ''s1=0'', ''s2=0'', ''h1=0'', ''h2=0'', ''h3=0'',
        ''h4=0'', ''i1=<b 0x01>'', ''listen_port=1'', []]
   \<and> ''listen_port''
       \<in> set (map key_of (lines_of (IpcRequest (CreateIPCRequest two_line_i1_device False))))"
proof (intro conjI)
  show "ParseInterface sample_lib two_line_i1_file new_DeviceConfig = Inr two_line_i1_device"
    unfolding ParseInterface_def two_line_i1_file_def sample_Interface_section
    apply (simp only: option.case list.case sample_privkey sample_address sample_dns bindE_simps Let_def)
    apply (simp add: parseNetIP_def parseStrings_def value_defs
        ParseASecConfig_def asec_int_field_def asec_header_field_def asec_string_field_def
        asec_itime_field_def initializeASecConfig_def ValidateASecConfig_def
        sample_defs ini_defs zero_ASecConfig_def new_DeviceConfig_def two_line_i1_device_def)
    done
  show "DeviceConfig.ListenPort two_line_i1_device = None"
    by (simp add: two_line_i1_device_def new_DeviceConfig_def)
  show l: "lines_of (IpcRequest (CreateIPCRequest two_line_i1_device False))
     = [''private_key=0000000000000000000000000000000000000000000000000000000000000000'',
        ''jc=0'', ''jmin=0'', ''jmax=0'', ''s1=0'', ''s2=0'', ''h1=0'', ''h2=0'', ''h3=0'',
        ''h4=0'', ''i1=<b 0x01>'', ''listen_port=1'', []]"
    unfolding two_line_i1_request by code_simp
  show "''listen_port''
       \<in> set (map key_of (lines_of (IpcRequest (CreateIPCRequest two_line_i1_device False))))"
    unfolding l by code_simp
qed

lemma filter_key_none:
  "k \<notin> set (map key_of ls) \<Longrightarrow> filter (\<lambda>l. key_of l = k) ls = []"
  by (induction ls) auto

lemma filter_key_all:
  "\<forall>l \<in> set ls. key_of l = k \<Longrightarrow> filter (\<lambda>l. key_of l = k) ls = ls"
  by (induction ls) auto

lemma device_keys_not_allowed_ip: "''allowed_ip'' \<notin> set (device_keys conf isUpdate)"
proof (cases "ASecConfig conf")
  case None
  then show ?thesis by (simp add: device_keys_def in_present_iff)
next
  case (Some a)
  with asec_keys_other(3)[of a] show ?thesis
    by (simp add: device_keys_def in_present_iff)
qed

lemma filter_allowed_ip_peer:
  "filter (\<lambda>l. key_of l = ''allowed_ip'') (peer_lines p) = allowed_ip_lines p"
proof -
  have "filter (\<lambda>l. key_of l = ''allowed_ip'') (opt_line ''endpoint'' (PeerConfig.Endpoint p)) = []"
    by (cases "PeerConfig.Endpoint p") (simp_all add: opt_line_def key_of_def)
  moreover have "filter (\<lambda>l. key_of l = ''allowed_ip'') (allowed_ip_lines p) = allowed_ip_lines p"
    by (rule filter_key_all) (simp add: allowed_ip_lines_key)
  ultimately show ?thesis
    by (simp add: peer_lines_def peer_head_lines_def) (simp add: key_of_def)
qed

lemma peer_head_keys:
  "''allowed_ip'' \<notin> set (map key_of (peer_head_lines p))"
proof -
  have "map key_of (opt_line ''endpoint'' (PeerConfig.Endpoint p))
        = present ''endpoint'' (PeerConfig.Endpoint p)"
    by (rule key_of_opt_line) simp
  then show ?thesis
    by (simp add: peer_head_lines_def in_present_iff) (simp add: key_of_def)
qed

text \<open>
  Claim C5, as the code has it. For every device configuration the request is the text of
  the lines of the device followed, peer after peer, by the lines of the peer up to
  \<^verbatim>\<open>replace_allowed_ips=true\<close> and then its \<^verbatim>\<open>allowed_ip\<close> lines, each followed by
  a line break: the two fallback lines \<^verbatim>\<open>allowed_ip=0.0.0.0/0\<close> and
  \<^verbatim>\<open>allowed_ip=::/0\<close> when the peer has no allowed IPs, and otherwise one line for each
  prefix, in order. No other line written has the key \<^verbatim>\<open>allowed_ip\<close>. The texts of the
  configuration are written as they are: when none of them holds a line break, these are
  the lines of the request, and its \<^verbatim>\<open>allowed_ip\<close> lines are exactly, peer after peer,
  the two fallback lines or the lines of the prefixes.
\<close>

theorem allowed_ip_lines_of_request:
  "IpcRequest (CreateIPCRequest conf isUpdate)
     = unlines (device_lines conf isUpdate
                @ concat (map (\<lambda>p. peer_head_lines p @ allowed_ip_lines p) (Peers conf)))
   \<and> ''allowed_ip'' \<notin> set (map key_of (device_lines conf isUpdate))
   \<and> (\<forall>p \<in> set (Peers conf). ''allowed_ip'' \<notin> set (map key_of (peer_head_lines p)))
   \<and> (wf_conf conf \<longrightarrow>
        lines_of (IpcRequest (CreateIPCRequest conf isUpdate))
          = device_lines conf isUpdate
            @ concat (map (\<lambda>p. peer_head_lines p @ allowed_ip_lines p) (Peers conf)) @ [[]]
        \<and> filter (\<lambda>l. key_of l = ''allowed_ip'')
            (lines_of (IpcRequest (CreateIPCRequest conf isUpdate)))
          = concat (map allowed_ip_lines (Peers conf)))"
proof (intro conjI ballI impI)
  show "IpcRequest (CreateIPCRequest conf isUpdate)
     = unlines (device_lines conf isUpdate
                @ concat (map (\<lambda>p. peer_head_lines p @ allowed_ip_lines p) (Peers conf)))"
    using ipc_request_eq[of conf isUpdate]
    by (simp add: CreateIPCRequest_def peer_lines_def[abs_def])
  show "''allowed_ip'' \<notin> set (map key_of (device_lines conf isUpdate))"
    by (simp only: device_keys_eq device_keys_not_allowed_ip not_False_eq_True)
  show "''allowed_ip'' \<notin> set (map key_of (peer_head_lines p))" for p
    by (rule peer_head_keys)
  assume wf: "wf_conf conf"
  have r: "IpcRequest (CreateIPCRequest conf isUpdate) = ipc_request conf isUpdate"
    by (simp add: CreateIPCRequest_def)
  show "lines_of (IpcRequest (CreateIPCRequest conf isUpdate))
          = device_lines conf isUpdate
            @ concat (map (\<lambda>p. peer_head_lines p @ allowed_ip_lines p) (Peers conf)) @ [[]]"
    unfolding r request_lines[OF wf] by (simp add: peer_lines_def[abs_def])
  have d: "filter (\<lambda>l. key_of l = ''allowed_ip'') (device_lines conf isUpdate) = []"
    by (rule filter_key_none) (simp add: device_keys_eq device_keys_not_allowed_ip)
  have e: "key_of [] \<noteq> ''allowed_ip''"
    by (simp add: key_of_def)
  show "filter (\<lambda>l. key_of l = ''allowed_ip'')
          (lines_of (IpcRequest (CreateIPCRequest conf isUpdate)))
        = concat (map allowed_ip_lines (Peers conf))"
    unfolding r request_lines[OF wf]
    by (simp add: d e filter_concat comp_def filter_allowed_ip_peer)
qed

theorem allowed_ip_lines_of_request_witness:
  "wf_conf two_peers_device
   \<and> filter (\<lambda>l. key_of l = ''allowed_ip'')
        (lines_of (IpcRequest (CreateIPCRequest two_peers_device False)))
     = [''allowed_ip=10.0.0.0/8'', ''allowed_ip=fd00::/8'',
        ''allowed_ip=0.0.0.0/0'', ''allowed_ip=::/0'']"
proof -
  have "show_nat 8 = ''8''"
    by (simp add: show_nat.simps digit_char_def)
  then have c: "concat (map allowed_ip_lines (Peers two_peers_device))
     = [''allowed_ip=10.0.0.0/8'', ''allowed_ip=fd00::/8'',
        ''allowed_ip=0.0.0.0/0'', ''allowed_ip=::/0'']"
    by (simp add: allowed_ip_lines_def two_peers_device_def sample_device_def
          sample_peer_config_def)
  have f: "filter (\<lambda>l. key_of l = ''allowed_ip'')
             (lines_of (IpcRequest (CreateIPCRequest two_peers_device False)))
           = concat (map allowed_ip_lines (Peers two_peers_device))"
    using allowed_ip_lines_of_request[of two_peers_device False] wf_two_peers_device
    by blast
  show ?thesis
    unfolding f c using wf_two_peers_device by simp
qed

lemma two_line_endpoint_request:
  "IpcRequest (CreateIPCRequest two_line_endpoint_device False)
   = ''private_key=0000000000000000000000000000000000000000000000000000000000000000\<newline>''
     @ ''public_key=0000000000000000000000000000000000000000000000000000000000000000\<newline>''
     @ ''persistent_keepalive_interval=25\<newline>''
     @ ''preshared_key=0000000000000000000000000000000000000000000000000000000000000000\<newline>''
     @ ''endpoint=94.140.11.15:51820\<newline>allowed_ip=6.6.6.6/32\<newline>''
     @ ''replace_allowed_ips=true\<newline>allowed_ip=0.0.0.0/0\<newline>allowed_ip=::/0\<newline>''"
proof -
  have z: "show_int 25 = ''25''"
    by (simp add: show_int_def show_nat.simps digit_char_def)
  show ?thesis
    by (simp add: CreateIPCRequest_def ipc_request_eq device_lines_def peer_lines_def
          peer_head_lines_def allowed_ip_lines_def opt_line_def unlines_def
          two_line_endpoint_device_def two_line_endpoint_peer_def sample_device_def
          sample_peer_config_def zero_key_hex_def z)
qed

text \<open>
  Claim C5 fails where a text of the peer holds a line break. The peer whose endpoint
  text runs over two lines has no allowed IPs; its part of the request holds three
  \<^verbatim>\<open>allowed_ip\<close> lines, the line \<^verbatim>\<open>allowed_ip=6.6.6.6/32\<close> of the endpoint text before
  the two fallback lines.
\<close>

theorem allowed_ip_lines_counterexample:
  "Peers two_line_endpoint_device = [two_line_endpoint_peer]
   \<and> AllowedIPs two_line_endpoint_peer = []
   \<and> lines_of (IpcRequest (CreateIPCRequest two_line_endpoint_device False))
     = [''private_key=0000000000000000000000000000000000000000000000000000000000000000'',
        ''public_key=0000000000000000000000000000000000000000000000000000000000000000'',
        ''persistent_keepalive_interval=25'',
        ''preshared_key=0000000000000000000000000000000000000000000000000000000000000000'',
        ''endpoint=94.140.11.15:51820'', ''allowed_ip=6.6.6.6/32'',
        ''replace_allowed_ips=true'', ''allowed_ip=0.0.0.0/0'', ''allowed_ip=::/0'', []]
   \<and> filter (\<lambda>l. key_of l = ''allowed_ip'')
        (lines_of (IpcRequest (CreateIPCRequest two_line_endpoint_device False)))
     = [''allowed_ip=6.6.6.6/32'', ''allowed_ip=0.0.0.0/0'', ''allowed_ip=::/0'']"
proof (intro conjI)
  show "Peers two_line_endpoint_device = [two_line_endpoint_peer]"
    by (simp add: two_line_endpoint_device_def)
  show "AllowedIPs two_line_endpoint_peer = []"
    by (simp add: two_line_endpoint_peer_def)
  show l: "lines_of (IpcRequest (CreateIPCRequest two_line_endpoint_device False))
     = [''private_key=0000000000000000000000000000000000000000000000000000000000000000'',
        ''public_key=0000000000000000000000000000000000000000000000000000000000000000'',
        ''persistent_keepalive_interval=25'',
        ''preshared_key=0000000000000000000000000000000000000000000000000000000000000000'',
        ''endpoint=94.140.11.15:51820'', ''allowed_ip=6.6.6.6/32'',
        ''replace_allowed_ips=true'', ''allowed_ip=0.0.0.0/0'', ''allowed_ip=::/0'', []]"
    unfolding two_line_endpoint_request by code_simp
  show "filter (\<lambda>l. key_of l = ''allowed_ip'')
        (lines_of (IpcRequest (CreateIPCRequest two_line_endpoint_device False)))
     = [''allowed_ip=6.6.6.6/32'', ''allowed_ip=0.0.0.0/0'', ''allowed_ip=::/0'']"
    unfolding l by code_simp
qed

section \<open>Authentication and resolution\<close>

text \<open>
  Claim C4 fails on the code: the SOCKS5 routine looks at the user name alone. With an
  empty user name it offers no authentication, whatever the password, while the HTTP
  routine requires authentication as soon as one of the two is set.
\<close>

theorem Socks5_auth_by_username_only:
  "(Socks5_authMethods config = [NoAuthAuthenticator] \<longleftrightarrow> Socks5Config.Username config = [])
   \<and> Socks5_authMethods \<lparr>Socks5Config.BindAddress = ''127.0.0.1:1080'',
                          Socks5Config.Username = [],
                          Socks5Config.Password = ''hunter2''\<rparr> = [NoAuthAuthenticator]
   \<and> HTTP_authRequired \<lparr>HTTPConfig.BindAddress = ''127.0.0.1:3128'',
                         HTTPConfig.Username = [],
                         HTTPConfig.Password = ''hunter2''\<rparr>"
  by (simp add: Socks5_authMethods_def HTTP_authRequired_def Let_def)

theorem Socks5_auth_by_username_only_witness:
  "Socks5_authMethods \<lparr>Socks5Config.BindAddress = ''127.0.0.1:1080'',
                        Socks5Config.Username = [],
                        Socks5Config.Password = ''hunter2''\<rparr>
     \<noteq> [UserPassAuthenticator [([], ''hunter2'')]]
   \<and> Socks5_authMethods \<lparr>Socks5Config.BindAddress = ''127.0.0.1:1080'',
                          Socks5Config.Username = ''alice'',
                          Socks5Config.Password = []\<rparr>
     \<noteq> [NoAuthAuthenticator]"
  using Socks5_auth_by_username_only
          [of "\<lparr>Socks5Config.BindAddress = ''127.0.0.1:1080'', Socks5Config.Username = [],
                Socks5Config.Password = ''hunter2''\<rparr>"]
        Socks5_auth_by_username_only
          [of "\<lparr>Socks5Config.BindAddress = ''127.0.0.1:1080'', Socks5Config.Username = ''alice'',
                Socks5Config.Password = []\<rparr>"]
  by simp

text \<open>
  Claim C9 fails on the code: \<^verbatim>\<open>queryDNS\<close> returns the first record of the answer
  section that is an \<^verbatim>\<open>A\<close> or an \<^verbatim>\<open>AAAA\<close> record, whatever the query type. When
  the answer to the \<^verbatim>\<open>A\<close> query lists an \<^verbatim>\<open>AAAA\<close> record before its \<^verbatim>\<open>A\<close> record,
  \<^verbatim>\<open>Resolve\<close> returns the IPv6 address, with no second query.
\<close>

theorem Resolve_first_record_of_any_kind:
  "Resolve mixed_answer (Some [''1.1.1.1'']) ''example.com'' = Inr sample_ip6
   \<and> length sample_ip6 = 16
   \<and> queryDNS mixed_answer ''1.1.1.1:53'' ''example.com.'' TypeA = Inr (Some sample_ip6)"
  by (simp add: Resolve_def queryDNS_def mixed_answer_def Contains_def HasPrefix_def
        HasSuffix_def sample_ip6_def)

end
